theory Spec2Isabelle
  imports Complex_Main "HOL-Library.Word" "HOL-Library.Sublist"
begin

section \<open>Strings of the handler\<close>

text \<open>
  A JavaScript string is a finite sequence of UTF-16 code units, and \<open>s.length\<close>,
  \<open>s.slice\<close>, \<open>s.includes\<close>, \<open>s.trim\<close> and \<open>+\<close> all work on code units.  The
  model keeps exactly that: a string is a list of 16-bit words.  The literals of
  \<^verbatim>\<open>route.ts\<close> are ASCII, so each literal is written as an Isabelle string and
  mapped code unit by code unit with \<open>lit\<close>.
\<close>

type_synonym jstring = "16 word list"

definition lit :: "string \<Rightarrow> jstring" where
  "lit s = map of_char s"

subsection \<open>Template literal \<open>${n}\<close> for a non-negative integer\<close>

text \<open>
  \<open>`${s.length - max}`\<close> renders a number with \<open>Number::toString\<close>.  The number is a
  difference of a string length and a smaller budget, hence a non-negative integer far
  below \<open>10^21\<close>, which JavaScript prints as its plain decimal digits.
\<close>

definition digit_unit :: "nat \<Rightarrow> 16 word" where
  "digit_unit d = of_nat (48 + d)"

fun show_nat :: "nat \<Rightarrow> jstring" where
  "show_nat n = (if n < 10 then [digit_unit n]
                 else show_nat (n div 10) @ [digit_unit (n mod 10)])"

declare show_nat.simps [simp del]

text \<open>Reading a decimal numeral back; used only to state what a marker says.\<close>

definition digit_value :: "16 word \<Rightarrow> nat" where
  "digit_value c = unat c - 48"

definition read_nat :: "jstring \<Rightarrow> nat" where
  "read_nat ds = foldl (\<lambda>acc c. 10 * acc + digit_value c) 0 ds"

section \<open>Data model\<close>

subsection \<open>JavaScript values that reach the handler\<close>

text \<open>
  \<open>Number(...)\<close> and \<open>JSON.parse\<close> produce IEEE 754 doubles.  A finite double is kept
  as the rational it denotes; \<open>to_double\<close> below rounds a rational to the nearest double
  and is applied wherever a double is computed from a numeral.  The two zeros are not
  told apart: \<open>-0\<close> and \<open>+0\<close> are both \<open>Num 0\<close>.
\<close>

datatype jsnum = NaN | PosInfinity | NegInfinity | Num rat

text \<open>
  The result of \<open>req.json()\<close> is a JSON value.  An object is the list of its members in
  source order; \<open>undefined\<close> is what reading a missing property gives.  The parameter of
  \<open>safeStringifyFailureInfo\<close> has the type \<open>unknown\<close>, so the values also include two
  kinds that \<open>JSON.parse\<close> never yields and \<open>JSON.stringify\<close> does not serialize: a
  \<open>bigint\<close> and a function.
\<close>

datatype jsvalue =
    JUndefined
  | JNull
  | JBool bool
  | JNumber jsnum
  | JString jstring
  | JArray "jsvalue list"
  | JObject "(jstring \<times> jsvalue) list"
  | JBigInt int
  | JFunction

text \<open>
  \<open>data[key]\<close> on a parsed object.  \<open>JSON.parse\<close> keeps the last of several members
  with the same name, so the lookup reads the member list from the right.
\<close>

definition get_property :: "(jstring \<times> jsvalue) list \<Rightarrow> jstring \<Rightarrow> jsvalue" where
  "get_property members key =
     (case map_of (rev members) key of None \<Rightarrow> JUndefined | Some v \<Rightarrow> v)"

subsection \<open>Exceptions\<close>

datatype issue_code = invalid_type | too_small

datatype issue = Issue (code: issue_code) (path: "jstring list")

text \<open>
  The \<open>catch\<close> clause of \<open>POST\<close> looks at two things only: whether the thrown value is
  a \<open>ZodError\<close>, and otherwise its \<open>name\<close> property (\<open>err?.name\<close>, absent for a value
  without one).
\<close>

datatype thrown = ZodError "issue list" | OtherError "jstring option"

subsection \<open>The validated request\<close>

text \<open>The validated request, \<open>z.infer<typeof CritiqueRequestSchema>\<close>.\<close>

record CritiqueRequest =
  id_field :: jstring
  prd :: jstring
  buggy_solution_code :: jstring
  failure_info :: jsvalue
  label :: "jstring option"
  qwq_critique :: "jstring option"
  meta :: jsvalue

subsection \<open>Configuration, request and response\<close>

text \<open>
  \<open>process.env\<close>: each variable is a string or absent.
\<close>

record environment =
  HF_TOKEN :: "jstring option"
  HF_MODEL :: "jstring option"
  CRITIQUE_TIMEOUT_MS :: "jstring option"

text \<open>
  What the handler reads of the inbound \<open>Request\<close>: the \<open>content-type\<close> header
  (\<open>headers.get\<close> gives \<open>null\<close> when it is absent) and the outcome of \<open>req.json()\<close>,
  which either throws (a body that is not JSON; only the \<open>name\<close> of the error matters
  to the handler) or yields the parsed value.
\<close>

datatype json_outcome = JsonThrows "jstring option" | JsonValue jsvalue

record request =
  content_type :: "jstring option"
  json_body :: json_outcome

text \<open>
  The options of \<open>new OpenAI({...})\<close> and the arguments of
  \<open>client.chat.completions.create\<close>.
\<close>

record client_options =
  apiKey :: jstring
  baseURL :: jstring
  maxRetries :: nat

record completion_call =
  client :: client_options
  model :: jstring
  temperature :: rat
  max_tokens :: nat
  system_content :: jstring
  user_content :: jstring

text \<open>
  The awaited call either rejects with some error, of which the handler reads the
  \<open>name\<close> only, or resolves with a completion, of which it reads
  \<open>choices?.[0]?.message?.content\<close> only (absent when any link of the chain is).
\<close>

datatype completion_outcome = Rejected "jstring option" | Resolved "jstring option"

type_synonym model_endpoint = "completion_call \<Rightarrow> completion_outcome"

text \<open>
  The call is given \<open>controller.signal\<close>, and the callback of the timer runs
  \<open>controller.abort()\<close>.  When the signal aborts while the call is pending, the openai
  client rejects the call with its \<open>APIUserAbortError\<close>, a subclass of \<open>Error\<close> that sets
  no \<open>name\<close> of its own: reading \<open>err.name\<close> on it gives \<open>Error\<close>.
\<close>

definition aborted_by_timer :: completion_outcome where
  "aborted_by_timer = Rejected (Some (lit ''Error''))"

text \<open>The effects of one invocation on the outside, in the order they happen.\<close>

datatype effect = SetTimeout jsnum | CompletionsCreate completion_call | ClearTimeout

text \<open>The JSON body of the response, and the response with its status and header.\<close>

datatype critique_result =
    Success (request_id: jstring) (sample_id: jstring) (used_model: jstring)
            (hasAllHeaders_flag: bool) (text_out: jstring)
  | Failure (request_id: jstring) (error: jstring) (details: "issue list option")

record response =
  status :: nat
  cache_control :: "jstring option"
  result :: critique_result

section \<open>Hard limits\<close>

definition MAX_PRD_CHARS :: nat where "MAX_PRD_CHARS = 20000"
definition MAX_CODE_CHARS :: nat where "MAX_CODE_CHARS = 20000"
definition MAX_FAILUREINFO_CHARS :: nat where "MAX_FAILUREINFO_CHARS = 12000"
definition MAX_PROMPT_CHARS :: nat where "MAX_PROMPT_CHARS = 60000"

section \<open>\<open>truncate\<close>\<close>

text \<open>
  \<^verbatim>\<open>function truncate(s: string, max: number) {
    if (s.length <= max) return s;
    return s.slice(0, max) + `\n\n...[TRUNCATED ${s.length - max} chars]`;
  }\<close>
  Every call passes one of the four limits above, so \<open>max\<close> is a natural number
  (written \<open>mx\<close> below) and \<open>s.slice(0, max)\<close> is the prefix of \<open>max\<close> code units.
\<close>

definition marker_prefix :: jstring where
  "marker_prefix = lit ''\<newline>\<newline>...[TRUNCATED ''"

definition marker_suffix :: jstring where
  "marker_suffix = lit '' chars]''"

definition truncation_marker :: "nat \<Rightarrow> jstring" where
  "truncation_marker dropped = marker_prefix @ show_nat dropped @ marker_suffix"

definition truncate :: "jstring \<Rightarrow> nat \<Rightarrow> jstring" where
  "truncate s mx =
     (if length s \<le> mx then s
      else take mx s @ truncation_marker (length s - mx))"

section \<open>Serialization and the prompt\<close>

subsection \<open>\<open>safeStringifyFailureInfo\<close>\<close>

text \<open>
  \<^verbatim>\<open>function safeStringifyFailureInfo(x: unknown) {
    try {
      const raw = JSON.stringify(x ?? null, null, 2);
      return truncate(raw, MAX_FAILUREINFO_CHARS);
    } catch {
      return "null";
    }
  }\<close>
  \<open>JSON.stringify(v, null, 2)\<close> is a primitive of the platform with three possible
  outcomes: it throws (a cyclic structure, a BigInt, a throwing \<open>toJSON\<close>), it returns
  \<open>undefined\<close> (a function, a symbol), or it returns a string.  The model takes the
  serializer as the parameter \<open>stringify\<close> with exactly these outcomes:
  \<open>Inl e\<close>, \<open>Inr None\<close>, \<open>Inr (Some raw)\<close>.  When it returns \<open>undefined\<close>, the call
  \<open>truncate(raw, ...)\<close> evaluates \<open>raw.length\<close> on \<open>undefined\<close>, which throws a TypeError
  inside the \<open>try\<close> block.
\<close>

type_synonym serializer = "jsvalue \<Rightarrow> thrown + jstring option"

definition nullish_or_null :: "jsvalue \<Rightarrow> jsvalue" where
  "nullish_or_null x = (case x of JUndefined \<Rightarrow> JNull | JNull \<Rightarrow> JNull | v \<Rightarrow> v)"

definition stringify_try_block :: "serializer \<Rightarrow> jsvalue \<Rightarrow> thrown + jstring" where
  "stringify_try_block stringify x =
     (case stringify (nullish_or_null x) of
        Inl e \<Rightarrow> Inl e
      | Inr None \<Rightarrow> Inl (OtherError (Some (lit ''TypeError'')))
      | Inr (Some raw) \<Rightarrow> Inr (truncate raw MAX_FAILUREINFO_CHARS))"

definition safeStringifyFailureInfo :: "serializer \<Rightarrow> jsvalue \<Rightarrow> jstring" where
  "safeStringifyFailureInfo stringify x =
     (case stringify_try_block stringify x of
        Inr r \<Rightarrow> r
      | Inl e \<Rightarrow> lit ''null'')"

subsection \<open>\<open>String.prototype.trim\<close>, \<open>Array.prototype.join\<close>, \<open>String.prototype.includes\<close>\<close>

text \<open>
  \<open>trim\<close> removes leading and trailing white space and line terminators: TAB, LF, VT,
  FF, CR, SP, NBSP, the Unicode space separators and ZWNBSP.  All of them are single
  code units.
\<close>

definition is_white_space :: "16 word \<Rightarrow> bool" where
  "is_white_space c =
     (c = 0x09 \<or> c = 0x0A \<or> c = 0x0B \<or> c = 0x0C \<or> c = 0x0D \<or> c = 0x20 \<or> c = 0xA0
      \<or> c = 0x1680 \<or> (0x2000 \<le> c \<and> c \<le> 0x200A) \<or> c = 0x2028 \<or> c = 0x2029
      \<or> c = 0x202F \<or> c = 0x205F \<or> c = 0x3000 \<or> c = 0xFEFF)"

definition trim :: "jstring \<Rightarrow> jstring" where
  "trim s = rev (dropWhile is_white_space (rev (dropWhile is_white_space s)))"

fun join :: "jstring \<Rightarrow> jstring list \<Rightarrow> jstring" where
  "join sep [] = []"
| "join sep [x] = x"
| "join sep (x # y # ys) = x @ sep @ join sep (y # ys)"

fun includes_str :: "jstring \<Rightarrow> jstring \<Rightarrow> bool" where
  "includes_str [] sub = (sub = [])"
| "includes_str (c # cs) sub = (prefix sub (c # cs) \<or> includes_str cs sub)"

subsection \<open>\<open>buildPrompt\<close>\<close>

definition apostrophe :: jstring where
  "apostrophe = [0x27]"

definition preamble_lines :: "jstring list" where
  "preamble_lines =
    [lit ''You are a meticulous Quality Assurance Engineer for the OpenCodeReasoning (OCR) Challenge.'',
     lit '''',
     lit ''You will be given:'',
     lit ''- PRD: the exact problem statement + constraints'',
     lit ''- BUGGY_CODE: a Python solution that fails'',
     lit ''- FAILURE_INFO: failing tests / trace / error details (may be partial)'',
     lit ''- LABEL/JUDGEMENT: may be present as a hint about expected behavior'',
     lit '''',
     lit ''OUTPUT FORMAT CONTRACT (STRICT):'',
     lit ''- Your output MUST contain exactly THREE sections, in this exact order.'',
     lit ''- The FIRST line of each section MUST be EXACTLY one of these header lines (match characters exactly):'',
     lit ''Detailed Diagnosis'',
     lit ''[Proposed Fix]'',
     lit ''<Test_Validation>'',
     lit ''- Do NOT add any other headers or lines that look like headers.'',
     lit ''- Do NOT add numbering, bullets, colons, markdown prefixes (e.g. ###), or extra characters on the header lines.'',
     lit ''- Do NOT output anything before '' @ apostrophe @ lit ''Detailed Diagnosis'' @ apostrophe
       @ lit '' and do NOT output anything after the <Test_Validation> section.'',
     lit '''',
     lit ''CORRECTNESS REQUIREMENTS:'',
     lit ''- Detailed Diagnosis: identify faulty line(s), root cause, and how it violates the PRD.'',
     lit ''- [Proposed Fix]: provide a complete, self-contained Python script that solves the PRD.'',
     lit ''  - Keep the original structure where possible; change only what is necessary to satisfy the PRD.'',
     lit ''  - Do NOT introduce unrelated algorithms or features.'',
     lit ''- <Test_Validation>: include at least 3 NEW assert statements (plain '' @ apostrophe
       @ lit ''assert'' @ apostrophe @ lit '', no test frameworks).'',
     lit ''  - Include at least 1 counter-factual assert that fails on the buggy code but passes on your fix (use FAILURE_INFO when possible).'',
     lit ''  - Include at least 2 additional edge/boundary asserts implied by the PRD.'',
     lit ''- The asserts MUST be consistent with the behavior of your fixed code.'',
     lit ''- Do NOT use external internet, files, or non-standard libraries.'',
     lit ''- Keep it formal, precise, and technical. No filler.'',
     lit '''',
     lit ''INPUTS:'',
     lit '''']"

text \<open>The array literal of \<open>buildPrompt\<close>, joined with a line feed, before the final cut.\<close>

definition assembled_prompt :: "serializer \<Rightarrow> CritiqueRequest \<Rightarrow> jstring" where
  "assembled_prompt stringify input =
     (let prd_t = truncate (prd input) MAX_PRD_CHARS;
          code_t = truncate (buggy_solution_code input) MAX_CODE_CHARS;
          failureInfo = safeStringifyFailureInfo stringify (failure_info input);
          label_t = (case label input of None \<Rightarrow> lit ''null'' | Some l \<Rightarrow> l)
      in join (lit ''\<newline>'')
           (preamble_lines @
            [lit ''=== PRD ==='',
             trim prd_t,
             lit '''',
             lit ''=== BUGGY_CODE ==='',
             trim code_t,
             lit '''',
             lit ''=== FAILURE_INFO (json) ==='',
             failureInfo,
             lit '''',
             lit ''=== LABEL/JUDGEMENT (optional) ==='',
             label_t,
             lit '''',
             lit ''Return ONLY the three required sections, in order, with the exact header lines.'']))"

definition buildPrompt :: "serializer \<Rightarrow> CritiqueRequest \<Rightarrow> jstring" where
  "buildPrompt stringify input = truncate (assembled_prompt stringify input) MAX_PROMPT_CHARS"

section \<open>Request validation\<close>

text \<open>
  \<^verbatim>\<open>const CritiqueRequestSchema = z.object({
    id: z.string().min(1),
    prd: z.string().min(1),
    buggy_solution_code: z.string().min(1),
    failure_info: z.any().optional(),
    label: z.string().optional(),
    qwq_critique: z.string().optional(),
    meta: z.any().optional(),
  });\<close>
  The schema is interpreted by the zod library: \<open>z.object\<close> rejects a value that is not
  a plain object with one \<open>invalid_type\<close> issue at the empty path; otherwise it checks
  every key of the shape, in declaration order, and collects all issues; keys that the
  shape does not name are dropped.  \<open>z.string()\<close> raises \<open>invalid_type\<close> on anything that
  is not a string (a missing key reads as \<open>undefined\<close>), \<open>.min(1)\<close> raises \<open>too_small\<close>
  on the empty string, \<open>.optional()\<close> lets \<open>undefined\<close> through and nothing else, and
  \<open>z.any()\<close> accepts every value.  Each issue carries the path of its key.
\<close>

definition string_min1 :: "jstring \<Rightarrow> jsvalue \<Rightarrow> issue list" where
  "string_min1 key v =
     (case v of
        JString s \<Rightarrow> (if length s < 1 then [Issue too_small [key]] else [])
      | _ \<Rightarrow> [Issue invalid_type [key]])"

definition string_optional :: "jstring \<Rightarrow> jsvalue \<Rightarrow> issue list" where
  "string_optional key v =
     (case v of
        JUndefined \<Rightarrow> []
      | JString s \<Rightarrow> []
      | _ \<Rightarrow> [Issue invalid_type [key]])"

definition any_optional :: "jstring \<Rightarrow> jsvalue \<Rightarrow> issue list" where
  "any_optional key v = []"

definition string_value :: "jsvalue \<Rightarrow> jstring" where
  "string_value v = (case v of JString s \<Rightarrow> s | _ \<Rightarrow> [])"

definition optional_string_value :: "jsvalue \<Rightarrow> jstring option" where
  "optional_string_value v = (case v of JString s \<Rightarrow> Some s | _ \<Rightarrow> None)"

definition schema_issues :: "(jstring \<times> jsvalue) list \<Rightarrow> issue list" where
  "schema_issues members =
     string_min1 (lit ''id'') (get_property members (lit ''id''))
   @ string_min1 (lit ''prd'') (get_property members (lit ''prd''))
   @ string_min1 (lit ''buggy_solution_code'') (get_property members (lit ''buggy_solution_code''))
   @ any_optional (lit ''failure_info'') (get_property members (lit ''failure_info''))
   @ string_optional (lit ''label'') (get_property members (lit ''label''))
   @ string_optional (lit ''qwq_critique'') (get_property members (lit ''qwq_critique''))
   @ any_optional (lit ''meta'') (get_property members (lit ''meta''))"

definition schema_output :: "(jstring \<times> jsvalue) list \<Rightarrow> CritiqueRequest" where
  "schema_output members =
     \<lparr> id_field = string_value (get_property members (lit ''id'')),
       prd = string_value (get_property members (lit ''prd'')),
       buggy_solution_code = string_value (get_property members (lit ''buggy_solution_code'')),
       failure_info = get_property members (lit ''failure_info''),
       label = optional_string_value (get_property members (lit ''label'')),
       qwq_critique = optional_string_value (get_property members (lit ''qwq_critique'')),
       meta = get_property members (lit ''meta'') \<rparr>"

text \<open>\<open>CritiqueRequestSchema.parse(body)\<close>: the parsed request, or the issues of the \<open>ZodError\<close>.\<close>

definition CritiqueRequestSchema_parse :: "jsvalue \<Rightarrow> issue list + CritiqueRequest" where
  "CritiqueRequestSchema_parse data =
     (case data of
        JObject members \<Rightarrow>
          (if schema_issues members = [] then Inr (schema_output members)
           else Inl (schema_issues members))
      | _ \<Rightarrow> Inl [Issue invalid_type []])"

section \<open>Configuration\<close>

subsection \<open>\<open>Number(string)\<close>\<close>

text \<open>
  \<open>Number\<close> applied to a string follows the grammar \<open>StringNumericLiteral\<close> of
  ECMAScript: white space around an optional literal, which is a signed decimal literal
  (\<open>Infinity\<close>, digits with an optional fraction and exponent) or an unsigned binary,
  octal or hexadecimal integer.  The empty literal is \<open>0\<close>; a string outside the grammar
  is \<open>NaN\<close>.  The value of a literal is rounded to a double.
\<close>

definition is_decimal_digit :: "16 word \<Rightarrow> bool" where
  "is_decimal_digit c = (0x30 \<le> c \<and> c \<le> 0x39)"

definition digit_in_base :: "nat \<Rightarrow> 16 word \<Rightarrow> nat option" where
  "digit_in_base b c =
     (if 0x30 \<le> c \<and> c \<le> 0x39 \<and> unat c - 48 < b then Some (unat c - 48)
      else if 0x61 \<le> c \<and> c \<le> 0x66 \<and> unat c - 87 < b then Some (unat c - 87)
      else if 0x41 \<le> c \<and> c \<le> 0x46 \<and> unat c - 55 < b then Some (unat c - 55)
      else None)"

fun digits_in_base :: "nat \<Rightarrow> nat \<Rightarrow> jstring \<Rightarrow> nat option" where
  "digits_in_base b acc [] = Some acc"
| "digits_in_base b acc (c # cs) =
     (case digit_in_base b c of
        None \<Rightarrow> None
      | Some d \<Rightarrow> digits_in_base b (b * acc + d) cs)"

definition digits_value :: "nat \<Rightarrow> jstring \<Rightarrow> nat option" where
  "digits_value b ds = (if ds = [] then None else digits_in_base b 0 ds)"

definition non_decimal_integer_literal :: "jstring \<Rightarrow> nat option" where
  "non_decimal_integer_literal s =
     (case s of
        c0 # c1 # ds \<Rightarrow>
          (if c0 \<noteq> 0x30 then None
           else if c1 = 0x78 \<or> c1 = 0x58 then digits_value 16 ds
           else if c1 = 0x6F \<or> c1 = 0x4F then digits_value 8 ds
           else if c1 = 0x62 \<or> c1 = 0x42 then digits_value 2 ds
           else None)
      | _ \<Rightarrow> None)"

definition signed_integer :: "jstring \<Rightarrow> int option" where
  "signed_integer r =
     (case r of
        [] \<Rightarrow> None
      | c # ds \<Rightarrow>
          (if c = 0x2B then map_option int (digits_value 10 ds)
           else if c = 0x2D then map_option (\<lambda>n. - int n) (digits_value 10 ds)
           else map_option int (digits_value 10 (c # ds))))"

definition exponent_part_opt :: "jstring \<Rightarrow> int option" where
  "exponent_part_opt r =
     (case r of
        [] \<Rightarrow> Some 0
      | c # r' \<Rightarrow> (if c = 0x65 \<or> c = 0x45 then signed_integer r' else None))"

definition scale10 :: "rat \<Rightarrow> int \<Rightarrow> rat" where
  "scale10 m e = (if 0 \<le> e then m * 10 ^ nat e else m / 10 ^ nat (- e))"

text \<open>
  The mathematical value of a literal is rounded to a double (\<open>RoundMVResult\<close> and
  \<open>Number::fromMathematicalValue\<close> of ECMAScript, as V8 computes them): to the
  nearest value with a 53-bit significand, or with the fixed exponent \<open>-1074\<close> below the
  normal range, a tie going to the even significand; a result of magnitude \<open>2^1024\<close>
  is \<open>Infinity\<close>.  \<open>binade a\<close> is the exponent \<open>e\<close> with \<open>2^e \<le> a < 2^(e+1)\<close>, found from
  the bit lengths of the numerator and the denominator of \<open>a\<close>.
\<close>

definition pow2 :: "int \<Rightarrow> rat" where
  "pow2 k = (if 0 \<le> k then 2 ^ nat k else 1 / 2 ^ nat (- k))"

function bit_length :: "int \<Rightarrow> int" where
  "bit_length n = (if n \<le> 0 then 0 else 1 + bit_length (n div 2))"
  by pat_completeness auto
termination by (relation "measure nat") auto

declare bit_length.simps [simp del]

definition binade :: "rat \<Rightarrow> int" where
  "binade a =
     (let k = bit_length (fst (quotient_of a)) - bit_length (snd (quotient_of a))
      in if pow2 k \<le> a then k else k - 1)"

definition round_half_even :: "rat \<Rightarrow> int" where
  "round_half_even x =
     (let f = \<lfloor>x\<rfloor>; d = x - of_int f
      in if d < 1 / 2 then f else if 1 / 2 < d then f + 1 else if even f then f else f + 1)"

definition to_double :: "rat \<Rightarrow> jsnum" where
  "to_double q =
     (if q = 0 then Num 0
      else
        (let a = \<bar>q\<bar>;
             e = max (binade a) (- 1022);
             ulp = pow2 (e - 52);
             v = of_int (round_half_even (a / ulp)) * ulp
         in if pow2 1024 \<le> v then (if q < 0 then NegInfinity else PosInfinity)
            else Num (if q < 0 then - v else v)))"

definition unsigned_decimal_literal :: "jstring \<Rightarrow> jsnum option" where
  "unsigned_decimal_literal s =
     (if s = lit ''Infinity'' then Some PosInfinity
      else
        (let ip = takeWhile is_decimal_digit s;
             r1 = dropWhile is_decimal_digit s
         in if r1 \<noteq> [] \<and> hd r1 = 0x2E then
              (let fp = takeWhile is_decimal_digit (tl r1);
                   r3 = dropWhile is_decimal_digit (tl r1)
               in if ip = [] \<and> fp = [] then None
                  else map_option
                         (\<lambda>e. to_double (scale10 (of_nat (read_nat ip)
                                                  + of_nat (read_nat fp) / 10 ^ length fp) e))
                         (exponent_part_opt r3))
            else if ip = [] then None
            else map_option (\<lambda>e. to_double (scale10 (of_nat (read_nat ip)) e))
                   (exponent_part_opt r1)))"

definition negate :: "jsnum \<Rightarrow> jsnum" where
  "negate v =
     (case v of
        NaN \<Rightarrow> NaN
      | PosInfinity \<Rightarrow> NegInfinity
      | NegInfinity \<Rightarrow> PosInfinity
      | Num q \<Rightarrow> Num (- q))"

definition decimal_literal :: "jstring \<Rightarrow> jsnum option" where
  "decimal_literal s =
     (case s of
        [] \<Rightarrow> None
      | c # r \<Rightarrow>
          (if c = 0x2B then unsigned_decimal_literal r
           else if c = 0x2D then map_option negate (unsigned_decimal_literal r)
           else unsigned_decimal_literal s))"

definition Number_of_string :: "jstring \<Rightarrow> jsnum" where
  "Number_of_string s =
     (let t = trim s
      in if t = [] then Num 0
         else (case non_decimal_integer_literal t of
                 Some n \<Rightarrow> to_double (of_nat n)
               | None \<Rightarrow>
                   (case decimal_literal t of
                      Some v \<Rightarrow> v
                    | None \<Rightarrow> NaN)))"

text \<open>
  \<^verbatim>\<open>const timeoutMs = Number(process.env.CRITIQUE_TIMEOUT_MS || 45_000);\<close>
  A variable of the environment is a string or absent.  \<open>||\<close> takes its right operand
  when the left one is \<open>undefined\<close> or the empty string, and \<open>Number(45000)\<close> is \<open>45000\<close>.
\<close>

definition timeoutMs :: "environment \<Rightarrow> jsnum" where
  "timeoutMs env =
     (case CRITIQUE_TIMEOUT_MS env of
        None \<Rightarrow> Num 45000
      | Some s \<Rightarrow> (if s = [] then Num 45000 else Number_of_string s))"

section \<open>The handler\<close>

text \<open>
  \<^verbatim>\<open>function jsonNoStore(body: any, status = 200) {
    const res = NextResponse.json(body, { status });
    res.headers.set("Cache-Control", "no-store");
    return res;
  }\<close>
\<close>

definition NextResponse_json :: "critique_result \<Rightarrow> nat \<Rightarrow> response" where
  "NextResponse_json body st = \<lparr> status = st, cache_control = None, result = body \<rparr>"

definition jsonNoStore :: "critique_result \<Rightarrow> nat \<Rightarrow> response" where
  "jsonNoStore body st = (NextResponse_json body st) \<lparr> cache_control := Some (lit ''no-store'') \<rparr>"

text \<open>
  \<^verbatim>\<open>const hasAllHeaders =
    text.includes("Detailed Diagnosis") &&
    text.includes("[Proposed Fix]") &&
    text.includes("<Test_Validation>");\<close>
\<close>

definition hasAllHeaders :: "jstring \<Rightarrow> bool" where
  "hasAllHeaders text =
     (includes_str text (lit ''Detailed Diagnosis'')
      \<and> includes_str text (lit ''[Proposed Fix]'')
      \<and> includes_str text (lit ''<Test_Validation>''))"

text \<open>\<open>x || d\<close> on a string that may be absent: \<open>d\<close> for \<open>undefined\<close>, \<open>null\<close> and \<open>""\<close>.\<close>

definition or_default :: "jstring option \<Rightarrow> jstring \<Rightarrow> jstring" where
  "or_default x d = (case x of None \<Rightarrow> d | Some s \<Rightarrow> (if s = [] then d else s))"

definition make_call :: "serializer \<Rightarrow> jstring \<Rightarrow> jstring \<Rightarrow> CritiqueRequest \<Rightarrow> completion_call" where
  "make_call stringify hfToken mdl input =
     \<lparr> client = \<lparr> apiKey = hfToken,
                  baseURL = lit ''https://router.huggingface.co/v1'',
                  maxRetries = 2 \<rparr>,
       model = mdl,
       temperature = 2 / 10,
       max_tokens = 1400,
       system_content =
         lit ''You are a QA Engineer. Follow the required OCR output structure exactly.'',
       user_content = buildPrompt stringify input \<rparr>"

text \<open>
  The \<open>try\<close> block of \<open>POST\<close>.  It returns a response, or throws; beside the result it
  yields the effects performed so far.  The request id comes from
  \<open>crypto.randomUUID()\<close> and is a parameter.  The inner \<open>try ... finally\<close> arms the timer,
  awaits the one call of \<open>client.chat.completions.create\<close> and clears the timer whether
  the call resolved or rejected.
\<close>

definition POST_try ::
  "serializer \<Rightarrow> model_endpoint \<Rightarrow> jstring \<Rightarrow> request \<Rightarrow> environment
     \<Rightarrow> (thrown + response) \<times> effect list" where
  "POST_try stringify endpoint requestId req env =
     (let ct = or_default (content_type req) []
      in if \<not> includes_str ct (lit ''application/json'') then
           (Inr (jsonNoStore
                   (Failure requestId (lit ''Content-Type must be application/json'') None)
                   415), [])
         else
           (case HF_TOKEN env of
              None \<Rightarrow>
                (Inr (jsonNoStore
                        (Failure requestId (lit ''Server misconfigured: HF_TOKEN missing'') None)
                        500), [])
            | Some hfToken \<Rightarrow>
                if hfToken = [] then
                  (Inr (jsonNoStore
                          (Failure requestId (lit ''Server misconfigured: HF_TOKEN missing'') None)
                          500), [])
                else
                  (case json_body req of
                     JsonThrows name \<Rightarrow> (Inl (OtherError name), [])
                   | JsonValue body \<Rightarrow>
                       (case CritiqueRequestSchema_parse body of
                          Inl issues \<Rightarrow> (Inl (ZodError issues), [])
                        | Inr input \<Rightarrow>
                            (let mdl = or_default (HF_MODEL env)
                                         (lit ''Qwen/Qwen2.5-Coder-7B-Instruct'');
                                 call = make_call stringify hfToken mdl input;
                                 effects = [SetTimeout (timeoutMs env),
                                            CompletionsCreate call,
                                            ClearTimeout]
                             in case endpoint call of
                                  Rejected name \<Rightarrow> (Inl (OtherError name), effects)
                                | Resolved content \<Rightarrow>
                                    (let text = (case content of None \<Rightarrow> [] | Some t \<Rightarrow> t)
                                     in (Inr (jsonNoStore
                                                (Success requestId (id_field input) mdl
                                                   (hasAllHeaders text) text)
                                                200), effects)))))))"

text \<open>
  The \<open>catch\<close> clause: a \<open>ZodError\<close> gives 400 with its issues, an error named
  \<open>AbortError\<close> gives 504, everything else gives 500.
\<close>

definition POST_catch :: "jstring \<Rightarrow> thrown \<Rightarrow> response" where
  "POST_catch requestId err =
     (case err of
        ZodError issues \<Rightarrow>
          jsonNoStore (Failure requestId (lit ''Invalid request body'') (Some issues)) 400
      | OtherError name \<Rightarrow>
          (if name = Some (lit ''AbortError'') then
             jsonNoStore (Failure requestId (lit ''Upstream model request timed out'') None) 504
           else
             jsonNoStore (Failure requestId (lit ''Server error'') None) 500))"

definition POST ::
  "serializer \<Rightarrow> model_endpoint \<Rightarrow> jstring \<Rightarrow> request \<Rightarrow> environment
     \<Rightarrow> response \<times> effect list" where
  "POST stringify endpoint requestId req env =
     (case POST_try stringify endpoint requestId req env of
        (Inr res, effects) \<Rightarrow> (res, effects)
      | (Inl err, effects) \<Rightarrow> (POST_catch requestId err, effects))"

section \<open>Vocabulary of the properties\<close>

text \<open>
  The kinds of outcome, read off the body of a response: the success shape, or the
  failure shape with one of the five error texts of the handler.
\<close>

datatype outcome =
  ValidationError | BadContentType | Misconfigured | UpstreamTimeout | ServerError | Completed

definition classify :: "response \<Rightarrow> outcome" where
  "classify res =
     (case result res of
        Success rid sid mdl flag txt \<Rightarrow> Completed
      | Failure rid err det \<Rightarrow>
          (if err = lit ''Invalid request body'' then ValidationError
           else if err = lit ''Content-Type must be application/json'' then BadContentType
           else if err = lit ''Server misconfigured: HF_TOKEN missing'' then Misconfigured
           else if err = lit ''Upstream model request timed out'' then UpstreamTimeout
           else ServerError))"

text \<open>The status each kind of outcome is to carry.\<close>

definition status_of :: "outcome \<Rightarrow> nat" where
  "status_of k =
     (case k of
        ValidationError \<Rightarrow> 400
      | BadContentType \<Rightarrow> 415
      | Misconfigured \<Rightarrow> 500
      | UpstreamTimeout \<Rightarrow> 504
      | ServerError \<Rightarrow> 500
      | Completed \<Rightarrow> 200)"

text \<open>The three guards of the handler, as conditions on its input.\<close>

definition declares_json :: "request \<Rightarrow> bool" where
  "declares_json req = includes_str (or_default (content_type req) []) (lit ''application/json'')"

definition has_credential :: "environment \<Rightarrow> bool" where
  "has_credential env = (case HF_TOKEN env of None \<Rightarrow> False | Some t \<Rightarrow> t \<noteq> [])"

definition is_nonempty_string :: "jsvalue \<Rightarrow> bool" where
  "is_nonempty_string v = (case v of JString s \<Rightarrow> s \<noteq> [] | _ \<Rightarrow> False)"

definition absent_or_string :: "jsvalue \<Rightarrow> bool" where
  "absent_or_string v = (case v of JUndefined \<Rightarrow> True | JString s \<Rightarrow> True | _ \<Rightarrow> False)"

definition is_object :: "jsvalue \<Rightarrow> bool" where
  "is_object v = (case v of JObject ms \<Rightarrow> True | _ \<Rightarrow> False)"

text \<open>
  The four interpolated sections of the prompt: what \<open>buildPrompt\<close> puts under the
  headings \<open>=== PRD ===\<close>, \<open>=== BUGGY_CODE ===\<close>, \<open>=== FAILURE_INFO (json) ===\<close> and
  \<open>=== LABEL/JUDGEMENT (optional) ===\<close>.
\<close>

definition prd_section :: "CritiqueRequest \<Rightarrow> jstring" where
  "prd_section input = trim (truncate (prd input) MAX_PRD_CHARS)"

definition code_section :: "CritiqueRequest \<Rightarrow> jstring" where
  "code_section input = trim (truncate (buggy_solution_code input) MAX_CODE_CHARS)"

definition failure_info_section :: "serializer \<Rightarrow> CritiqueRequest \<Rightarrow> jstring" where
  "failure_info_section stringify input =
     safeStringifyFailureInfo stringify (failure_info input)"

definition label_section :: "CritiqueRequest \<Rightarrow> jstring" where
  "label_section input = (case label input of None \<Rightarrow> lit ''null'' | Some l \<Rightarrow> l)"

text \<open>The calls of \<open>client.chat.completions.create\<close> among the effects of an invocation.\<close>

fun outbound_calls :: "effect list \<Rightarrow> completion_call list" where
  "outbound_calls [] = []"
| "outbound_calls (CompletionsCreate c # es) = c # outbound_calls es"
| "outbound_calls (e # es) = outbound_calls es"

text \<open>The call the handler issues for a validated request under an environment.\<close>

definition the_call :: "serializer \<Rightarrow> environment \<Rightarrow> CritiqueRequest \<Rightarrow> completion_call" where
  "the_call s env input =
     make_call s (or_default (HF_TOKEN env) [])
       (or_default (HF_MODEL env) (lit ''Qwen/Qwen2.5-Coder-7B-Instruct'')) input"

section \<open>Concrete inputs\<close>

text \<open>
  Doubles for the two collaborators, used in the closed examples.  The serializer double
  answers as \<open>JSON.stringify\<close> does on \<open>null\<close>, \<open>true\<close> and \<open>false\<close>, on a string of
  printable ASCII characters other than the quotation mark and the backslash (the
  string between two quotation marks), on \<open>undefined\<close> and a function (no string is
  returned) and on a \<open>bigint\<close> (a \<open>TypeError\<close> is thrown); the examples serialize nothing
  else, and on any other value the double throws.  The endpoint doubles resolve with a
  text that carries the three headers, reject with a connection error, and stay pending
  until the timer aborts the call.
\<close>

definition is_plain_unit :: "16 word \<Rightarrow> bool" where
  "is_plain_unit c = (0x20 \<le> c \<and> c \<le> 0x7E \<and> c \<noteq> 0x22 \<and> c \<noteq> 0x5C)"

definition stringify_double :: serializer where
  "stringify_double v =
     (case v of
        JNull \<Rightarrow> Inr (Some (lit ''null''))
      | JBool b \<Rightarrow> Inr (Some (if b then lit ''true'' else lit ''false''))
      | JString s \<Rightarrow>
          (if list_all is_plain_unit s then Inr (Some (0x22 # s @ [0x22]))
           else Inl (OtherError (Some (lit ''TypeError''))))
      | JUndefined \<Rightarrow> Inr None
      | JFunction \<Rightarrow> Inr None
      | _ \<Rightarrow> Inl (OtherError (Some (lit ''TypeError''))))"

definition critique_text :: jstring where
  "critique_text =
     lit ''Detailed Diagnosis\<newline>off by one\<newline>[Proposed Fix]\<newline>def f(x): return sum(x)\<newline><Test_Validation>\<newline>assert f([1]) == 1''"

definition endpoint_resolving :: model_endpoint where
  "endpoint_resolving call = Resolved (Some critique_text)"

definition endpoint_failing :: model_endpoint where
  "endpoint_failing call = Rejected (Some (lit ''APIConnectionError''))"

definition endpoint_aborting :: model_endpoint where
  "endpoint_aborting call = aborted_by_timer"

definition uuid0 :: jstring where
  "uuid0 = lit ''3f2b8a52-7c1d-4e0a-9b56-0d1c2e3f4a5b''"

definition env_configured :: environment where
  "env_configured = \<lparr> HF_TOKEN = Some (lit ''hf_token''), HF_MODEL = None,
                      CRITIQUE_TIMEOUT_MS = None \<rparr>"

definition env_no_token :: environment where
  "env_no_token = \<lparr> HF_TOKEN = None, HF_MODEL = None, CRITIQUE_TIMEOUT_MS = None \<rparr>"

definition env_timeout_abc :: environment where
  "env_timeout_abc = \<lparr> HF_TOKEN = Some (lit ''hf_token''), HF_MODEL = None,
                       CRITIQUE_TIMEOUT_MS = Some (lit ''abc'') \<rparr>"

definition env_timeout_10 :: environment where
  "env_timeout_10 = \<lparr> HF_TOKEN = Some (lit ''hf_token''), HF_MODEL = None,
                      CRITIQUE_TIMEOUT_MS = Some (lit ''10'') \<rparr>"

definition members_valid :: "(jstring \<times> jsvalue) list" where
  "members_valid =
     [(lit ''id'', JString (lit ''s1'')),
      (lit ''prd'', JString (lit ''Return sum of list'')),
      (lit ''buggy_solution_code'', JString (lit ''def f(x): return 0''))]"

definition members_missing_prd :: "(jstring \<times> jsvalue) list" where
  "members_missing_prd =
     [(lit ''id'', JString (lit ''s1'')),
      (lit ''buggy_solution_code'', JString (lit ''def f(x): return 0''))]"

definition members_missing_prd_empty_code :: "(jstring \<times> jsvalue) list" where
  "members_missing_prd_empty_code =
     [(lit ''id'', JString (lit ''s1'')),
      (lit ''buggy_solution_code'', JString [])]"

definition members_missing_prd_null_label :: "(jstring \<times> jsvalue) list" where
  "members_missing_prd_null_label =
     [(lit ''id'', JString (lit ''s1'')),
      (lit ''buggy_solution_code'', JString (lit ''def f(x): return 0'')),
      (lit ''label'', JNull)]"

definition long_failure_info :: jsvalue where
  "long_failure_info = JString (replicate 12003 0x61)"

definition members_bad_optionals :: "(jstring \<times> jsvalue) list" where
  "members_bad_optionals =
     members_valid @ [(lit ''label'', JNull), (lit ''qwq_critique'', JNumber (Num 42))]"

definition json_request :: "jsvalue \<Rightarrow> request" where
  "json_request body =
     \<lparr> content_type = Some (lit ''application/json''), json_body = JsonValue body \<rparr>"

definition text_request :: "jsvalue \<Rightarrow> request" where
  "text_request body =
     \<lparr> content_type = Some (lit ''text/plain''), json_body = JsonValue body \<rparr>"

definition request_valid :: CritiqueRequest where
  "request_valid =
     \<lparr> id_field = lit ''s1'', prd = lit ''Return sum of list'',
       buggy_solution_code = lit ''def f(x): return 0'', failure_info = JUndefined,
       label = None, qwq_critique = None, meta = JUndefined \<rparr>"

definition request_padded :: CritiqueRequest where
  "request_padded = request_valid \<lparr> prd := lit '' Return sum of list'' \<rparr>"

definition long_label :: jstring where
  "long_label = replicate 60001 0x61"

definition request_long_label :: CritiqueRequest where
  "request_long_label = request_valid \<lparr> label := Some long_label \<rparr>"

section \<open>Properties\<close>

subsection \<open>Decimal rendering\<close>

lemma digit_value_digit_unit: "d < 10 \<Longrightarrow> digit_value (digit_unit d) = d"
  unfolding digit_value_def digit_unit_def by (simp only: unat_of_nat) simp

lemma read_nat_snoc: "read_nat (ds @ [c]) = 10 * read_nat ds + digit_value c"
  by (simp add: read_nat_def)

lemma read_nat_show_nat: "read_nat (show_nat n) = n"
proof (induction n rule: show_nat.induct)
  case (1 n)
  show ?case
  proof (cases "n < 10")
    case True
    then show ?thesis
      by (simp add: show_nat.simps [of n] read_nat_def digit_value_digit_unit)
  next
    case False
    with "1" have "read_nat (show_nat (n div 10)) = n div 10" by simp
    with False show ?thesis
      by (simp add: show_nat.simps [of n] read_nat_snoc digit_value_digit_unit)
  qed
qed

lemma length_lit: "length (lit s) = length s"
  by (simp add: lit_def)

lemma length_marker_prefix: "length marker_prefix = 16"
  by (simp add: marker_prefix_def length_lit)

lemma length_marker_suffix: "length marker_suffix = 7"
  by (simp add: marker_suffix_def length_lit)

lemma length_truncation_marker:
  "length (truncation_marker d) = 23 + length (show_nat d)"
  by (simp add: truncation_marker_def length_marker_prefix length_marker_suffix)

subsection \<open>Substrings and serialization\<close>



lemma safeStringify_cases:
  "safeStringifyFailureInfo stringify x =
     (case stringify (nullish_or_null x) of
        Inl e \<Rightarrow> lit ''null''
      | Inr None \<Rightarrow> lit ''null''
      | Inr (Some raw) \<Rightarrow> truncate raw MAX_FAILUREINFO_CHARS)"
  by (simp add: safeStringifyFailureInfo_def stringify_try_block_def
      split: sum.splits option.splits)

subsection \<open>The paths of the handler\<close>

lemma POST_bad_content_type:
  "\<not> declares_json req \<Longrightarrow>
   POST s e rid req env =
     (jsonNoStore (Failure rid (lit ''Content-Type must be application/json'') None) 415, [])"
  by (simp add: POST_def POST_try_def declares_json_def)

lemma POST_misconfigured:
  "declares_json req \<Longrightarrow> \<not> has_credential env \<Longrightarrow>
   POST s e rid req env =
     (jsonNoStore (Failure rid (lit ''Server misconfigured: HF_TOKEN missing'') None) 500, [])"
  by (simp add: POST_def POST_try_def declares_json_def has_credential_def
      split: option.splits)

lemma POST_body_throws:
  "declares_json req \<Longrightarrow> has_credential env \<Longrightarrow> json_body req = JsonThrows name \<Longrightarrow>
   POST s e rid req env = (POST_catch rid (OtherError name), [])"
  by (simp add: POST_def POST_try_def declares_json_def has_credential_def
      split: option.splits)

lemma POST_invalid:
  "declares_json req \<Longrightarrow> has_credential env \<Longrightarrow> json_body req = JsonValue body \<Longrightarrow>
   CritiqueRequestSchema_parse body = Inl issues \<Longrightarrow>
   POST s e rid req env =
     (jsonNoStore (Failure rid (lit ''Invalid request body'') (Some issues)) 400, [])"
  by (simp add: POST_def POST_try_def POST_catch_def declares_json_def has_credential_def
      split: option.splits)

lemma POST_invoked:
  "declares_json req \<Longrightarrow> has_credential env \<Longrightarrow> json_body req = JsonValue body \<Longrightarrow>
   CritiqueRequestSchema_parse body = Inr input \<Longrightarrow>
   POST s e rid req env =
     ((case e (the_call s env input) of
         Rejected name \<Rightarrow> POST_catch rid (OtherError name)
       | Resolved content \<Rightarrow>
           jsonNoStore
             (Success rid (id_field input)
                (or_default (HF_MODEL env) (lit ''Qwen/Qwen2.5-Coder-7B-Instruct''))
                (hasAllHeaders (case content of None \<Rightarrow> [] | Some t \<Rightarrow> t))
                (case content of None \<Rightarrow> [] | Some t \<Rightarrow> t))
             200),
      [SetTimeout (timeoutMs env), CompletionsCreate (the_call s env input), ClearTimeout])"
  by (simp add: POST_def POST_try_def declares_json_def has_credential_def the_call_def
      or_default_def Let_def
      split: option.splits completion_outcome.splits)

lemma jsonNoStore_fields:
  "result (jsonNoStore b st) = b"
  "status (jsonNoStore b st) = st"
  "cache_control (jsonNoStore b st) = Some (lit ''no-store'')"
  by (simp_all add: jsonNoStore_def NextResponse_json_def)

lemma classify_failures:
  "classify (jsonNoStore (Failure rid (lit ''Invalid request body'') d) st) = ValidationError"
  "classify (jsonNoStore (Failure rid (lit ''Content-Type must be application/json'') d) st)
     = BadContentType"
  "classify (jsonNoStore (Failure rid (lit ''Server misconfigured: HF_TOKEN missing'') d) st)
     = Misconfigured"
  "classify (jsonNoStore (Failure rid (lit ''Upstream model request timed out'') d) st)
     = UpstreamTimeout"
  "classify (jsonNoStore (Failure rid (lit ''Server error'') d) st) = ServerError"
  by (simp_all add: classify_def jsonNoStore_fields lit_def)

lemma classify_success:
  "classify (jsonNoStore (Success rid sid mdl flag txt) st) = Completed"
  by (simp add: classify_def jsonNoStore_fields)

lemma POST_catch_sound:
  "cache_control (POST_catch rid err) = Some (lit ''no-store'')
   \<and> status (POST_catch rid err) = status_of (classify (POST_catch rid err))"
  by (cases err) (simp_all add: POST_catch_def jsonNoStore_fields classify_failures status_of_def)

lemma POST_paths:
  obtains
    (content_type) "\<not> declares_json req"
  | (credential) "declares_json req" "\<not> has_credential env"
  | (unreadable) name where "declares_json req" "has_credential env"
      "json_body req = JsonThrows name"
  | (invalid) body issues where "declares_json req" "has_credential env"
      "json_body req = JsonValue body" "CritiqueRequestSchema_parse body = Inl issues"
  | (invoked) body input where "declares_json req" "has_credential env"
      "json_body req = JsonValue body" "CritiqueRequestSchema_parse body = Inr input"
proof (cases "declares_json req")
  case False
  then show ?thesis by (rule content_type)
next
  case dj: True
  show ?thesis
  proof (cases "has_credential env")
    case False
    with dj show ?thesis by (rule credential)
  next
    case hc: True
    show ?thesis
    proof (cases "json_body req")
      case (JsonThrows name)
      with dj hc show ?thesis by (rule unreadable)
    next
      case (JsonValue body)
      show ?thesis
      proof (cases "CritiqueRequestSchema_parse body")
        case (Inl issues)
        with dj hc JsonValue show ?thesis by (rule invalid)
      next
        case (Inr input)
        with dj hc JsonValue show ?thesis by (rule invoked)
      qed
    qed
  qed
qed

subsection \<open>The concrete inputs\<close>

lemma parse_members_valid:
  "CritiqueRequestSchema_parse (JObject members_valid) = Inr request_valid"
  by (simp add: CritiqueRequestSchema_parse_def schema_issues_def schema_output_def
      get_property_def members_valid_def request_valid_def string_min1_def
      string_optional_def any_optional_def string_value_def optional_string_value_def lit_def)

lemma parse_members_missing_prd:
  "CritiqueRequestSchema_parse (JObject members_missing_prd)
     = Inl [Issue invalid_type [lit ''prd'']]"
  by (simp add: CritiqueRequestSchema_parse_def schema_issues_def
      get_property_def members_missing_prd_def string_min1_def
      string_optional_def any_optional_def lit_def)

lemma declares_json_examples:
  "declares_json (json_request b)" "\<not> declares_json (text_request b)"
  by (simp_all add: declares_json_def json_request_def text_request_def or_default_def lit_def)

lemma json_body_examples:
  "json_body (json_request b) = JsonValue b" "json_body (text_request b) = JsonValue b"
  by (simp_all add: json_request_def text_request_def)

lemma has_credential_examples:
  "has_credential env_configured" "\<not> has_credential env_no_token"
  by (simp_all add: has_credential_def env_configured_def env_no_token_def lit_def)




subsection \<open>Truncation\<close>

lemma truncate_within: "length s \<le> mx \<Longrightarrow> truncate s mx = s"
  by (simp add: truncate_def)

lemma truncate_beyond:
  "mx < length s \<Longrightarrow> truncate s mx = take mx s @ truncation_marker (length s - mx)"
  by (simp add: truncate_def)

lemma length_truncate_beyond:
  "mx < length s \<Longrightarrow>
   length (truncate s mx) = mx + length (truncation_marker (length s - mx))"
  by (simp add: truncate_beyond)

lemma assembled_prompt_sections:
  "assembled_prompt stringify input =
     join (lit ''\<newline>'')
       (preamble_lines @
        [lit ''=== PRD ==='', prd_section input, lit '''',
         lit ''=== BUGGY_CODE ==='', code_section input, lit '''',
         lit ''=== FAILURE_INFO (json) ==='', failure_info_section stringify input, lit '''',
         lit ''=== LABEL/JUDGEMENT (optional) ==='', label_section input, lit '''',
         lit ''Return ONLY the three required sections, in order, with the exact header lines.''])"
  by (simp add: assembled_prompt_def prd_section_def code_section_def
      failure_info_section_def label_section_def)

lemma trim_unpadded:
  assumes "s \<noteq> []" "\<not> is_white_space (hd s)" "\<not> is_white_space (last s)"
  shows "trim s = s"
proof -
  from assms(1,2) have a: "dropWhile is_white_space s = s"
    by (cases s) simp_all
  from assms(1,3) have "dropWhile is_white_space (rev s) = rev s"
    by (cases "rev s") (simp_all add: last_rev [symmetric] hd_rev)
  with a show ?thesis by (simp add: trim_def)
qed

lemma last_truncation_marker: "last (xs @ truncation_marker d) = 0x5D"
  by (simp add: truncation_marker_def marker_suffix_def lit_def)

lemma trim_truncate_unpadded:
  assumes "f \<noteq> []" "\<not> is_white_space (hd f)" "\<not> is_white_space (last f)" "0 < mx"
  shows "trim (truncate f mx) = truncate f mx"
proof (cases "length f \<le> mx")
  case True
  with assms show ?thesis by (simp add: truncate_within trim_unpadded)
next
  case False
  then have t: "truncate f mx = take mx f @ truncation_marker (length f - mx)"
    by (simp add: truncate_beyond)
  from assms(1,4) have "take mx f \<noteq> []" by simp
  then have "hd (take mx f @ truncation_marker (length f - mx)) = hd (take mx f)"
    by simp
  also from assms(4) have "\<dots> = hd f" by (simp add: hd_take)
  finally have h: "\<not> is_white_space (hd (take mx f @ truncation_marker (length f - mx)))"
    using assms(2) by simp
  have l: "\<not> is_white_space (last (take mx f @ truncation_marker (length f - mx)))"
    by (simp add: last_truncation_marker is_white_space_def)
  from \<open>take mx f \<noteq> []\<close> have "take mx f @ truncation_marker (length f - mx) \<noteq> []"
    by simp
  from this h l show ?thesis
    unfolding t by (rule trim_unpadded)
qed

text \<open>
  Claim C3 states the truncation law of the rendered sections, and that a field within
  its budget is rendered unchanged.  \<open>buildPrompt\<close> applies \<open>trim()\<close> to the PRD and the
  code after truncating them: the PRD below is within its budget and starts with a
  space, and its section in the prompt is the PRD without that space.
\<close>

theorem rendering_counterexample:
  "length (prd request_padded) \<le> MAX_PRD_CHARS
   \<and> prd_section request_padded = lit ''Return sum of list''
   \<and> prd_section request_padded \<noteq> prd request_padded"
  by (simp add: request_padded_def request_valid_def prd_section_def MAX_PRD_CHARS_def
      truncate_def trim_def is_white_space_def lit_def)

text \<open>
  Claim C3, amended.  \<open>truncate\<close> turns a string longer than its budget into its prefix
  of budget length followed by the marker; the length of the result is the budget plus
  the length of the marker text; the marker is the fixed text around the decimal numeral
  of the dropped count, which reads back as the original length minus the budget; a
  string within its budget is returned unchanged.  The prompt consists of the preamble
  and the four sections.  The \<open>failure_info\<close> section is the truncated serialization.
  The PRD and code sections are the truncated field with white space trimmed from both
  ends; trimming changes nothing when the field neither starts nor ends with white
  space, so for such a field the section is the truncated field.
\<close>

theorem truncation_law:
  "(mx < length s \<longrightarrow>
      truncate s mx = take mx s @ truncation_marker (length s - mx)
    \<and> length (truncate s mx) = mx + length (truncation_marker (length s - mx))
    \<and> truncation_marker (length s - mx)
        = lit ''\<newline>\<newline>...[TRUNCATED '' @ show_nat (length s - mx) @ lit '' chars]''
    \<and> read_nat (show_nat (length s - mx)) = length s - mx)
   \<and> (length s \<le> mx \<longrightarrow> truncate s mx = s)
   \<and> assembled_prompt stringify input =
       join (lit ''\<newline>'')
         (preamble_lines @
          [lit ''=== PRD ==='', prd_section input, lit '''',
           lit ''=== BUGGY_CODE ==='', code_section input, lit '''',
           lit ''=== FAILURE_INFO (json) ==='', failure_info_section stringify input, lit '''',
           lit ''=== LABEL/JUDGEMENT (optional) ==='', label_section input, lit '''',
           lit ''Return ONLY the three required sections, in order, with the exact header lines.''])
   \<and> (stringify (nullish_or_null (failure_info input)) = Inr (Some raw) \<longrightarrow>
        failure_info_section stringify input = truncate raw MAX_FAILUREINFO_CHARS)
   \<and> prd_section input = trim (truncate (prd input) MAX_PRD_CHARS)
   \<and> code_section input = trim (truncate (buggy_solution_code input) MAX_CODE_CHARS)
   \<and> (f \<noteq> [] \<and> \<not> is_white_space (hd f) \<and> \<not> is_white_space (last f) \<and> 0 < mx \<longrightarrow>
        trim (truncate f mx) = truncate f mx)"
proof -
  have beyond: "mx < length s \<longrightarrow>
      truncate s mx = take mx s @ truncation_marker (length s - mx)
    \<and> length (truncate s mx) = mx + length (truncation_marker (length s - mx))
    \<and> truncation_marker (length s - mx)
        = lit ''\<newline>\<newline>...[TRUNCATED '' @ show_nat (length s - mx) @ lit '' chars]''
    \<and> read_nat (show_nat (length s - mx)) = length s - mx"
    by (simp add: truncate_beyond read_nat_show_nat truncation_marker_def
        marker_prefix_def marker_suffix_def)
  have within: "length s \<le> mx \<longrightarrow> truncate s mx = s"
    by (simp add: truncate_within)
  have serialized: "stringify (nullish_or_null (failure_info input)) = Inr (Some raw) \<longrightarrow>
      failure_info_section stringify input = truncate raw MAX_FAILUREINFO_CHARS"
    by (simp add: failure_info_section_def safeStringify_cases)
  have trimmed: "prd_section input = trim (truncate (prd input) MAX_PRD_CHARS)"
    "code_section input = trim (truncate (buggy_solution_code input) MAX_CODE_CHARS)"
    by (simp_all add: prd_section_def code_section_def)
  have unpadded: "f \<noteq> [] \<and> \<not> is_white_space (hd f) \<and> \<not> is_white_space (last f) \<and> 0 < mx
      \<longrightarrow> trim (truncate f mx) = truncate f mx"
    by (simp add: trim_truncate_unpadded)
  from beyond within assembled_prompt_sections [of stringify input] serialized trimmed unpadded
  show ?thesis
    by (intro conjI)
qed

theorem truncation_law_witness:
  "(3::nat) < length (lit ''abcdefghijklmnop'')
   \<and> truncate (lit ''abcdefghijklmnop'') 3 = lit ''abc\<newline>\<newline>...[TRUNCATED 13 chars]''
   \<and> length (truncate (lit ''abcdefghijklmnop'') 3) = 3 + 25
   \<and> read_nat (lit ''13'') = 16 - 3
   \<and> length (lit ''ab'') \<le> (3::nat)
   \<and> truncate (lit ''ab'') 3 = lit ''ab''
   \<and> stringify_double (nullish_or_null (failure_info request_valid)) = Inr (Some (lit ''null''))
   \<and> failure_info_section stringify_double request_valid = lit ''null''
   \<and> trim (truncate (lit ''abcdefghijklmnop'') 3) = lit ''abc\<newline>\<newline>...[TRUNCATED 13 chars]''"
proof -
  have len1: "(3::nat) < length (lit ''abcdefghijklmnop'')"
    by (simp add: length_lit)
  have len2: "length (lit ''ab'') \<le> (3::nat)"
    by (simp add: length_lit)
  have cut: "truncate (lit ''abcdefghijklmnop'') 3 = lit ''abc\<newline>\<newline>...[TRUNCATED 13 chars]''"
    by (simp add: truncate_def truncation_marker_def marker_prefix_def marker_suffix_def
        lit_def show_nat.simps digit_unit_def)
  have len3: "length (truncate (lit ''abcdefghijklmnop'') 3) = 3 + 25"
    by (simp add: cut length_lit)
  have rn: "read_nat (lit ''13'') = 16 - 3"
    by (simp add: read_nat_def digit_value_def lit_def)
  have small: "truncate (lit ''ab'') 3 = lit ''ab''"
    using truncation_law [of 3 "lit ''ab''"] len2 by simp
  have ser: "stringify_double (nullish_or_null (failure_info request_valid))
      = Inr (Some (lit ''null''))"
    by (simp add: stringify_double_def nullish_or_null_def request_valid_def)
  have "failure_info_section stringify_double request_valid
      = truncate (lit ''null'') MAX_FAILUREINFO_CHARS"
    using truncation_law [where stringify = stringify_double and input = request_valid
        and raw = "lit ''null''"] ser by simp
  then have fi: "failure_info_section stringify_double request_valid = lit ''null''"
    by (simp add: truncate_def MAX_FAILUREINFO_CHARS_def length_lit)
  have ends: "lit ''abcdefghijklmnop'' \<noteq> []"
    "\<not> is_white_space (hd (lit ''abcdefghijklmnop''))"
    "\<not> is_white_space (last (lit ''abcdefghijklmnop''))"
    by (simp_all add: lit_def is_white_space_def)
  have "trim (truncate (lit ''abcdefghijklmnop'') 3) = truncate (lit ''abcdefghijklmnop'') 3"
    using truncation_law [where f = "lit ''abcdefghijklmnop''" and mx = 3] ends by simp
  then have tr: "trim (truncate (lit ''abcdefghijklmnop'') 3)
      = lit ''abc\<newline>\<newline>...[TRUNCATED 13 chars]''"
    by (simp add: cut)
  from len1 cut len3 rn len2 small ser fi tr show ?thesis
    by (intro conjI)
qed

section \<open>Responses\<close>

text \<open>
  Whatever the request, the environment and the collaborators are, the response is
  marked \<open>Cache-Control: no-store\<close>, and its status is the one that goes with the error
  text of its body.  By cause: 415 when the content type is not JSON, 500 when the
  credential is missing, 400 when the body fails the schema, 200 when the call resolves,
  and, when the call or the body read throws, 504 if the thrown error is named
  \<open>AbortError\<close> and 500 otherwise.
\<close>

lemma status_by_cause:
  "cache_control (fst (POST s e rid req env)) = Some (lit ''no-store'')
   \<and> status (fst (POST s e rid req env)) = status_of (classify (fst (POST s e rid req env)))
   \<and> (\<not> declares_json req \<longrightarrow> status (fst (POST s e rid req env)) = 415)
   \<and> (declares_json req \<and> \<not> has_credential env \<longrightarrow>
        status (fst (POST s e rid req env)) = 500)
   \<and> (declares_json req \<and> has_credential env \<and> json_body req = JsonValue body
       \<and> CritiqueRequestSchema_parse body = Inl issues \<longrightarrow>
        status (fst (POST s e rid req env)) = 400)
   \<and> (declares_json req \<and> has_credential env \<and> json_body req = JsonValue body
       \<and> CritiqueRequestSchema_parse body = Inr input
       \<and> e (the_call s env input) = Rejected (Some (lit ''AbortError'')) \<longrightarrow>
        status (fst (POST s e rid req env)) = 504)
   \<and> (declares_json req \<and> has_credential env \<and> json_body req = JsonValue body
       \<and> CritiqueRequestSchema_parse body = Inr input
       \<and> e (the_call s env input) = Rejected name \<and> name \<noteq> Some (lit ''AbortError'') \<longrightarrow>
        status (fst (POST s e rid req env)) = 500)
   \<and> (declares_json req \<and> has_credential env \<and> json_body req = JsonThrows name
       \<and> name \<noteq> Some (lit ''AbortError'') \<longrightarrow>
        status (fst (POST s e rid req env)) = 500)
   \<and> (declares_json req \<and> has_credential env \<and> json_body req = JsonValue body
       \<and> CritiqueRequestSchema_parse body = Inr input
       \<and> e (the_call s env input) = Resolved content \<longrightarrow>
        status (fst (POST s e rid req env)) = 200)"
proof -
  have general: "cache_control (fst (POST s e rid req env)) = Some (lit ''no-store'')
    \<and> status (fst (POST s e rid req env)) = status_of (classify (fst (POST s e rid req env)))"
  proof (cases rule: POST_paths [where req = req and env = env])
    case content_type
    then show ?thesis
      by (simp add: POST_bad_content_type jsonNoStore_fields classify_failures status_of_def)
  next
    case credential
    then show ?thesis
      by (simp add: POST_misconfigured jsonNoStore_fields classify_failures status_of_def)
  next
    case (unreadable name)
    then show ?thesis
      by (simp add: POST_body_throws POST_catch_sound)
  next
    case (invalid body issues)
    then show ?thesis
      by (simp add: POST_invalid jsonNoStore_fields classify_failures status_of_def)
  next
    case (invoked body input)
    then show ?thesis
      by (simp add: POST_invoked POST_catch_sound jsonNoStore_fields classify_success
          status_of_def split: completion_outcome.splits)
  qed
  have c415: "\<not> declares_json req \<longrightarrow> status (fst (POST s e rid req env)) = 415"
    by (simp add: POST_bad_content_type jsonNoStore_fields)
  have c500: "declares_json req \<and> \<not> has_credential env \<longrightarrow>
        status (fst (POST s e rid req env)) = 500"
    by (simp add: POST_misconfigured jsonNoStore_fields)
  have c400: "declares_json req \<and> has_credential env \<and> json_body req = JsonValue body
       \<and> CritiqueRequestSchema_parse body = Inl issues \<longrightarrow>
        status (fst (POST s e rid req env)) = 400"
    by (simp add: POST_invalid jsonNoStore_fields)
  have c504: "declares_json req \<and> has_credential env \<and> json_body req = JsonValue body
       \<and> CritiqueRequestSchema_parse body = Inr input
       \<and> e (the_call s env input) = Rejected (Some (lit ''AbortError'')) \<longrightarrow>
        status (fst (POST s e rid req env)) = 504"
    by (simp add: POST_invoked POST_catch_def jsonNoStore_fields)
  have other: "declares_json req \<and> has_credential env \<and> json_body req = JsonValue body
       \<and> CritiqueRequestSchema_parse body = Inr input
       \<and> e (the_call s env input) = Rejected name \<and> name \<noteq> Some (lit ''AbortError'') \<longrightarrow>
        status (fst (POST s e rid req env)) = 500"
    by (simp add: POST_invoked POST_catch_def jsonNoStore_fields)
  have unreadable: "declares_json req \<and> has_credential env \<and> json_body req = JsonThrows name
       \<and> name \<noteq> Some (lit ''AbortError'') \<longrightarrow>
        status (fst (POST s e rid req env)) = 500"
    by (simp add: POST_body_throws POST_catch_def jsonNoStore_fields)
  have c200: "declares_json req \<and> has_credential env \<and> json_body req = JsonValue body
       \<and> CritiqueRequestSchema_parse body = Inr input
       \<and> e (the_call s env input) = Resolved content \<longrightarrow>
        status (fst (POST s e rid req env)) = 200"
    by (simp add: POST_invoked jsonNoStore_fields)
  from general c415 c500 c400 c504 other unreadable c200 show ?thesis
    by (intro conjI) simp_all
qed

text \<open>
  An error named \<open>AbortError\<close> is answered with 504 wherever it is thrown: when reading
  the body throws one, the response says that the upstream model timed out although no
  call was made and no timer was armed.
\<close>

lemma body_read_abort_answered_504:
  assumes "declares_json req" "has_credential env"
    and "json_body req = JsonThrows (Some (lit ''AbortError''))"
  shows "POST s e rid req env =
           (jsonNoStore (Failure rid (lit ''Upstream model request timed out'') None) 504, [])"
  using assms by (simp add: POST_body_throws POST_catch_def)

text \<open>
  Claim C9 gives the status 504 to a timeout.  The handler arms the timer, makes the call
  and, when the timer fires first, the call is rejected with \<open>aborted_by_timer\<close>, an
  error whose \<open>name\<close> is \<open>Error\<close>.  The \<open>catch\<close> clause compares the \<open>name\<close> with
  \<open>AbortError\<close>, so the timeout falls through to the generic branch: the response is
  500 with the text \<open>Server error\<close>, not 504 with \<open>Upstream model request timed out\<close>.
  The response is still marked \<open>no-store\<close>.
\<close>

theorem timeout_answered_500:
  assumes "declares_json req" "has_credential env"
    and "json_body req = JsonValue body"
    and "CritiqueRequestSchema_parse body = Inr input"
    and "e (the_call s env input) = aborted_by_timer"
  shows "POST s e rid req env =
           (jsonNoStore (Failure rid (lit ''Server error'') None) 500,
            [SetTimeout (timeoutMs env), CompletionsCreate (the_call s env input), ClearTimeout])
     \<and> status (fst (POST s e rid req env)) = 500
     \<and> status (fst (POST s e rid req env)) \<noteq> status_of UpstreamTimeout
     \<and> classify (fst (POST s e rid req env)) = ServerError
     \<and> result (fst (POST s e rid req env)) = Failure rid (lit ''Server error'') None
     \<and> cache_control (fst (POST s e rid req env)) = Some (lit ''no-store'')"
proof -
  have name: "Some (lit ''Error'') \<noteq> Some (lit ''AbortError'')"
    by (simp add: lit_def)
  have post: "POST s e rid req env =
           (jsonNoStore (Failure rid (lit ''Server error'') None) 500,
            [SetTimeout (timeoutMs env), CompletionsCreate (the_call s env input), ClearTimeout])"
    using name
    by (simp add: POST_invoked [OF assms(1-4)] assms(5) aborted_by_timer_def POST_catch_def)
  have cls: "classify (jsonNoStore (Failure rid (lit ''Server error'') None) 500) = ServerError"
    by (simp add: classify_def jsonNoStore_fields lit_def)
  show ?thesis
    unfolding post by (simp add: jsonNoStore_fields cls status_of_def)
qed

theorem timeout_answered_500_witness:
  "endpoint_aborting (the_call stringify_double env_configured request_valid)
     = Rejected (Some (lit ''Error''))
   \<and> status (fst (POST stringify_double endpoint_aborting uuid0
       (json_request (JObject members_valid)) env_configured)) = 500
   \<and> result (fst (POST stringify_double endpoint_aborting uuid0
       (json_request (JObject members_valid)) env_configured))
      = Failure uuid0 (lit ''Server error'') None
   \<and> snd (POST stringify_double endpoint_aborting uuid0
       (json_request (JObject members_valid)) env_configured)
      = [SetTimeout (Num 45000),
         CompletionsCreate (the_call stringify_double env_configured request_valid),
         ClearTimeout]"
proof -
  have call: "endpoint_aborting (the_call stringify_double env_configured request_valid)
      = aborted_by_timer"
    by (simp add: endpoint_aborting_def)
  have t: "timeoutMs env_configured = Num 45000"
    by (simp add: timeoutMs_def env_configured_def)
  note fact = timeout_answered_500 [where s = stringify_double and e = endpoint_aborting
      and rid = uuid0 and req = "json_request (JObject members_valid)"
      and env = env_configured and body = "JObject members_valid" and input = request_valid,
      OF declares_json_examples(1) has_credential_examples(1) json_body_examples(1)
        parse_members_valid call]
  have a: "endpoint_aborting (the_call stringify_double env_configured request_valid)
     = Rejected (Some (lit ''Error''))"
    by (simp add: endpoint_aborting_def aborted_by_timer_def)
  have b: "status (fst (POST stringify_double endpoint_aborting uuid0
       (json_request (JObject members_valid)) env_configured)) = 500"
    using fact by blast
  have c: "result (fst (POST stringify_double endpoint_aborting uuid0
       (json_request (JObject members_valid)) env_configured))
      = Failure uuid0 (lit ''Server error'') None"
    using fact by blast
  have d: "snd (POST stringify_double endpoint_aborting uuid0
       (json_request (JObject members_valid)) env_configured)
      = [SetTimeout (Num 45000),
         CompletionsCreate (the_call stringify_double env_configured request_valid),
         ClearTimeout]"
    using fact by (simp add: t)
  from a b c d show ?thesis by (intro conjI)
qed

section \<open>Order of the failure checks\<close>

text \<open>
  Claim C1 states that a validation failure is reported with priority over a
  content-type mismatch and over a missing credential.  The handler checks in the
  opposite order: the request below declares JSON and its body lacks \<open>prd\<close>, yet with
  no credential configured it is answered as \<open>Misconfigured\<close> with status 500, and with a
  \<open>text/plain\<close> content type as \<open>BadContentType\<close>.
\<close>

theorem validation_priority_counterexample:
  "CritiqueRequestSchema_parse (JObject members_missing_prd)
     = Inl [Issue invalid_type [lit ''prd'']]
   \<and> HF_TOKEN env_no_token = None
   \<and> classify (fst (POST stringify_double endpoint_resolving uuid0
        (json_request (JObject members_missing_prd)) env_no_token)) = Misconfigured
   \<and> status (fst (POST stringify_double endpoint_resolving uuid0
        (json_request (JObject members_missing_prd)) env_no_token)) = 500
   \<and> classify (fst (POST stringify_double endpoint_resolving uuid0
        (text_request (JObject members_missing_prd)) env_configured)) = BadContentType"
proof -
  have "HF_TOKEN env_no_token = None"
    by (simp add: env_no_token_def)
  then show ?thesis
    by (simp add: parse_members_missing_prd
        POST_misconfigured [OF declares_json_examples(1) has_credential_examples(2)]
        POST_bad_content_type [OF declares_json_examples(2)]
        classify_failures jsonNoStore_fields)
qed

text \<open>
  Claim C1, amended.  Failures are classified in the order of the handler's checks: a
  content-type mismatch is reported as \<open>BadContentType\<close> whatever the credential and the
  body are; otherwise a missing credential is reported as \<open>Misconfigured\<close> whatever the
  body is; otherwise a body that fails the schema is reported as \<open>ValidationError\<close> with
  its issues.  A \<open>ValidationError\<close> is reported only for a request that declares JSON,
  under a configured credential, whose body fails the schema.
\<close>

theorem classification_order:
  "(\<not> declares_json req \<longrightarrow>
      classify (fst (POST s e rid req env)) = BadContentType)
   \<and> (declares_json req \<and> \<not> has_credential env \<longrightarrow>
      classify (fst (POST s e rid req env)) = Misconfigured)
   \<and> (declares_json req \<and> has_credential env \<and> json_body req = JsonValue body
       \<and> CritiqueRequestSchema_parse body = Inl issues \<longrightarrow>
      classify (fst (POST s e rid req env)) = ValidationError
      \<and> result (fst (POST s e rid req env))
          = Failure rid (lit ''Invalid request body'') (Some issues))
   \<and> (classify (fst (POST s e rid req env)) = ValidationError \<longrightarrow>
      declares_json req \<and> has_credential env
      \<and> (\<exists>b is. json_body req = JsonValue b \<and> CritiqueRequestSchema_parse b = Inl is))"
proof (intro conjI impI)
  assume "\<not> declares_json req"
  then show "classify (fst (POST s e rid req env)) = BadContentType"
    by (simp add: POST_bad_content_type classify_failures)
next
  assume "declares_json req \<and> \<not> has_credential env"
  then show "classify (fst (POST s e rid req env)) = Misconfigured"
    by (simp add: POST_misconfigured classify_failures)
next
  assume h: "declares_json req \<and> has_credential env \<and> json_body req = JsonValue body
       \<and> CritiqueRequestSchema_parse body = Inl issues"
  then show "classify (fst (POST s e rid req env)) = ValidationError"
    by (simp add: POST_invalid classify_failures)
  from h show "result (fst (POST s e rid req env))
          = Failure rid (lit ''Invalid request body'') (Some issues)"
    by (simp add: POST_invalid jsonNoStore_fields)
next
  assume v: "classify (fst (POST s e rid req env)) = ValidationError"
  have "declares_json req \<and> has_credential env
      \<and> (\<exists>b is. json_body req = JsonValue b \<and> CritiqueRequestSchema_parse b = Inl is)"
  proof (cases rule: POST_paths [where req = req and env = env])
    case content_type
    with v show ?thesis by (simp add: POST_bad_content_type classify_failures)
  next
    case credential
    with v show ?thesis by (simp add: POST_misconfigured classify_failures)
  next
    case (unreadable name)
    with v show ?thesis
      by (simp add: POST_body_throws POST_catch_def classify_failures split: if_splits)
  next
    case (invalid body issues)
    then show ?thesis by simp
  next
    case (invoked body input)
    with v show ?thesis
      by (simp add: POST_invoked POST_catch_def classify_failures classify_success
          split: completion_outcome.splits if_splits)
  qed
  then show "declares_json req" "has_credential env"
    "\<exists>b is. json_body req = JsonValue b \<and> CritiqueRequestSchema_parse b = Inl is"
    by simp_all
qed

theorem classification_order_witness:
  "\<not> declares_json (text_request (JObject members_missing_prd))
   \<and> classify (fst (POST stringify_double endpoint_resolving uuid0
        (text_request (JObject members_missing_prd)) env_no_token)) = BadContentType
   \<and> declares_json (json_request (JObject members_missing_prd))
   \<and> \<not> has_credential env_no_token
   \<and> classify (fst (POST stringify_double endpoint_resolving uuid0
        (json_request (JObject members_missing_prd)) env_no_token)) = Misconfigured
   \<and> has_credential env_configured
   \<and> json_body (json_request (JObject members_missing_prd)) = JsonValue (JObject members_missing_prd)
   \<and> CritiqueRequestSchema_parse (JObject members_missing_prd)
        = Inl [Issue invalid_type [lit ''prd'']]
   \<and> classify (fst (POST stringify_double endpoint_resolving uuid0
        (json_request (JObject members_missing_prd)) env_configured)) = ValidationError
   \<and> result (fst (POST stringify_double endpoint_resolving uuid0
        (json_request (JObject members_missing_prd)) env_configured))
       = Failure uuid0 (lit ''Invalid request body'') (Some [Issue invalid_type [lit ''prd'']])"
  using classification_order [of "text_request (JObject members_missing_prd)"
      stringify_double endpoint_resolving uuid0 env_no_token]
    classification_order [of "json_request (JObject members_missing_prd)"
      stringify_double endpoint_resolving uuid0 env_no_token]
    classification_order [of "json_request (JObject members_missing_prd)"
      stringify_double endpoint_resolving uuid0 env_configured
      "JObject members_missing_prd" "[Issue invalid_type [lit ''prd'']]"]
  by (simp add: declares_json_examples has_credential_examples json_body_examples
      parse_members_missing_prd)

section \<open>Outbound calls\<close>

lemma outbound_calls_invocation:
  "outbound_calls [SetTimeout t, CompletionsCreate c, ClearTimeout] = [c]"
  by simp

text \<open>
  Claim C8.  A request that reaches the model invoker (it declares JSON, the credential
  is configured, the body passes the schema) causes exactly one call of
  \<open>client.chat.completions.create\<close>, whether that call resolves or rejects; and no
  request ever causes more than one.
\<close>

theorem one_outbound_call:
  "(declares_json req \<and> has_credential env \<and> json_body req = JsonValue body
     \<and> CritiqueRequestSchema_parse body = Inr input \<longrightarrow>
      outbound_calls (snd (POST s e rid req env)) = [the_call s env input])
   \<and> length (outbound_calls (snd (POST s e rid req env))) \<le> 1"
proof (intro conjI impI)
  assume "declares_json req \<and> has_credential env \<and> json_body req = JsonValue body
     \<and> CritiqueRequestSchema_parse body = Inr input"
  then show "outbound_calls (snd (POST s e rid req env)) = [the_call s env input]"
    by (simp add: POST_invoked)
next
  show "length (outbound_calls (snd (POST s e rid req env))) \<le> 1"
  proof (cases rule: POST_paths [where req = req and env = env])
    case content_type
    then show ?thesis by (simp add: POST_bad_content_type)
  next
    case credential
    then show ?thesis by (simp add: POST_misconfigured)
  next
    case (unreadable name)
    then show ?thesis by (simp add: POST_body_throws)
  next
    case (invalid body issues)
    then show ?thesis by (simp add: POST_invalid)
  next
    case (invoked body input)
    then show ?thesis by (simp add: POST_invoked)
  qed
qed

theorem one_outbound_call_witness:
  "declares_json (json_request (JObject members_valid))
   \<and> has_credential env_configured
   \<and> json_body (json_request (JObject members_valid)) = JsonValue (JObject members_valid)
   \<and> CritiqueRequestSchema_parse (JObject members_valid) = Inr request_valid
   \<and> outbound_calls (snd (POST stringify_double endpoint_failing uuid0
        (json_request (JObject members_valid)) env_configured))
       = [the_call stringify_double env_configured request_valid]
   \<and> status (fst (POST stringify_double endpoint_failing uuid0
        (json_request (JObject members_valid)) env_configured)) = 500"
proof -
  have "status (fst (POST stringify_double endpoint_failing uuid0
        (json_request (JObject members_valid)) env_configured)) = 500"
    by (simp add: POST_invoked [OF declares_json_examples(1) has_credential_examples(1)
          json_body_examples(1) parse_members_valid]
        endpoint_failing_def POST_catch_def jsonNoStore_fields lit_def)
  then show ?thesis
    using one_outbound_call [of "json_request (JObject members_valid)" env_configured
        "JObject members_valid" request_valid stringify_double endpoint_failing uuid0]
    by (simp add: declares_json_examples has_credential_examples json_body_examples
        parse_members_valid)
qed

section \<open>The header flag\<close>


lemma headers_any_order:
  "hasAllHeaders (lit ''<Test_Validation>[Proposed Fix]Detailed Diagnosis and more'')"
  by (simp add: hasAllHeaders_def lit_def)

lemma headers_one_missing:
  "\<not> hasAllHeaders (lit ''Detailed Diagnosis [Proposed Fix] <Test_Validation'')"
  by (simp add: hasAllHeaders_def lit_def)


section \<open>Serialization of \<open>failure_info\<close>\<close>

lemma stringify_double_outcomes:
  "stringify_double (JBigInt n) = Inl (OtherError (Some (lit ''TypeError'')))"
  "stringify_double JFunction = Inr None"
  "stringify_double JNull = Inr (Some (lit ''null''))"
  "stringify_double (JBool True) = Inr (Some (lit ''true''))"
  by (simp_all add: stringify_double_def)

lemma stringify_double_long:
  "stringify_double long_failure_info = Inr (Some (0x22 # replicate 12003 0x61 @ [0x22]))"
  "length (0x22 # replicate 12003 (0x61 :: 16 word) @ [0x22]) = 12005"
  "take 12000 (0x22 # replicate 12003 (0x61 :: 16 word) @ [0x22]) = 0x22 # replicate 11999 0x61"
proof -
  have "list_all is_plain_unit (replicate 12003 0x61)"
    unfolding list_all_iff by (simp add: is_plain_unit_def)
  then show "stringify_double long_failure_info
      = Inr (Some (0x22 # replicate 12003 0x61 @ [0x22]))"
    by (simp add: stringify_double_def long_failure_info_def)
  show "length (0x22 # replicate 12003 (0x61 :: 16 word) @ [0x22]) = 12005"
    by (simp)
  show "take 12000 (0x22 # replicate 12003 (0x61 :: 16 word) @ [0x22])
      = 0x22 # replicate 11999 0x61"
    by (simp)
qed

text \<open>
  Claim C5.  Whatever the value and whatever the serializer does with it,
  \<open>safeStringifyFailureInfo\<close> returns a string, and which one is fixed by the outcome of
  the serializer on \<open>x ?? null\<close>: the text \<open>null\<close> when the serializer throws; the text
  \<open>null\<close> when it returns no string; the serialized text itself when it has at most
  12,000 characters; and otherwise its first 12,000 characters followed by the marker
  that tells how many characters were dropped, 12,023 characters and the digits of that
  number in all.  These four cases are all there are.  An absent value is serialized as
  \<open>null\<close> is.
\<close>

theorem failure_info_serialization_total:
  "(safeStringifyFailureInfo stringify x = lit ''null''
      \<or> (\<exists>raw. stringify (nullish_or_null x) = Inr (Some raw)
            \<and> safeStringifyFailureInfo stringify x =
                (if length raw \<le> 12000 then raw
                 else take 12000 raw @ lit ''\<newline>\<newline>...[TRUNCATED ''
                        @ show_nat (length raw - 12000) @ lit '' chars]'')))
   \<and> (stringify (nullish_or_null x) = Inl err \<longrightarrow>
        safeStringifyFailureInfo stringify x = lit ''null'')
   \<and> (stringify (nullish_or_null x) = Inr None \<longrightarrow>
        safeStringifyFailureInfo stringify x = lit ''null'')
   \<and> (stringify (nullish_or_null x) = Inr (Some json) \<and> length json \<le> 12000 \<longrightarrow>
        safeStringifyFailureInfo stringify x = json)
   \<and> (stringify (nullish_or_null x) = Inr (Some json) \<and> 12000 < length json \<longrightarrow>
        safeStringifyFailureInfo stringify x =
          take 12000 json @ lit ''\<newline>\<newline>...[TRUNCATED ''
            @ show_nat (length json - 12000) @ lit '' chars]''
        \<and> length (safeStringifyFailureInfo stringify x)
            = 12023 + length (show_nat (length json - 12000)))
   \<and> nullish_or_null JUndefined = JNull
   \<and> safeStringifyFailureInfo stringify JUndefined = safeStringifyFailureInfo stringify JNull"
proof -
  have marker: "truncation_marker d
      = lit ''\<newline>\<newline>...[TRUNCATED '' @ show_nat d @ lit '' chars]''" for d
    by (simp add: truncation_marker_def marker_prefix_def marker_suffix_def)
  have cut: "truncate raw MAX_FAILUREINFO_CHARS =
      (if length raw \<le> 12000 then raw
       else take 12000 raw @ lit ''\<newline>\<newline>...[TRUNCATED ''
              @ show_nat (length raw - 12000) @ lit '' chars]'')" for raw
    by (simp add: truncate_def MAX_FAILUREINFO_CHARS_def marker)
  have total: "safeStringifyFailureInfo stringify x = lit ''null''
      \<or> (\<exists>raw. stringify (nullish_or_null x) = Inr (Some raw)
            \<and> safeStringifyFailureInfo stringify x =
                (if length raw \<le> 12000 then raw
                 else take 12000 raw @ lit ''\<newline>\<newline>...[TRUNCATED ''
                        @ show_nat (length raw - 12000) @ lit '' chars]''))"
  proof (cases "stringify (nullish_or_null x)")
    case (Inl thrown)
    then show ?thesis by (simp add: safeStringify_cases)
  next
    case (Inr returned)
    show ?thesis
    proof (cases returned)
      case None
      with Inr show ?thesis by (simp add: safeStringify_cases)
    next
      case (Some raw)
      with Inr show ?thesis by (simp add: safeStringify_cases cut)
    qed
  qed
  have throws: "stringify (nullish_or_null x) = Inl err \<longrightarrow>
        safeStringifyFailureInfo stringify x = lit ''null''"
    by (simp add: safeStringify_cases)
  have undef: "stringify (nullish_or_null x) = Inr None \<longrightarrow>
        safeStringifyFailureInfo stringify x = lit ''null''"
    by (simp add: safeStringify_cases)
  have short: "stringify (nullish_or_null x) = Inr (Some json) \<and> length json \<le> 12000 \<longrightarrow>
        safeStringifyFailureInfo stringify x = json"
    by (simp add: safeStringify_cases cut)
  have long: "stringify (nullish_or_null x) = Inr (Some json) \<and> 12000 < length json \<longrightarrow>
        safeStringifyFailureInfo stringify x =
          take 12000 json @ lit ''\<newline>\<newline>...[TRUNCATED ''
            @ show_nat (length json - 12000) @ lit '' chars]''
        \<and> length (safeStringifyFailureInfo stringify x)
            = 12023 + length (show_nat (length json - 12000))"
    by (simp add: safeStringify_cases cut length_lit)
  have absent: "nullish_or_null JUndefined = JNull"
    by (simp add: nullish_or_null_def)
  have same: "safeStringifyFailureInfo stringify JUndefined
      = safeStringifyFailureInfo stringify JNull"
    by (simp add: safeStringify_cases nullish_or_null_def)
  from total throws undef short long absent same show ?thesis
    by (intro conjI)
qed

theorem failure_info_serialization_total_witness:
  "stringify_double (JBigInt 1) = Inl (OtherError (Some (lit ''TypeError'')))
   \<and> safeStringifyFailureInfo stringify_double (JBigInt 1) = lit ''null''
   \<and> stringify_double JFunction = Inr None
   \<and> safeStringifyFailureInfo stringify_double JFunction = lit ''null''
   \<and> safeStringifyFailureInfo stringify_double JUndefined = lit ''null''
   \<and> safeStringifyFailureInfo stringify_double (JBool True) = lit ''true''
   \<and> stringify_double long_failure_info = Inr (Some (0x22 # replicate 12003 0x61 @ [0x22]))
   \<and> safeStringifyFailureInfo stringify_double long_failure_info
      = 0x22 # replicate 11999 0x61 @ lit ''\<newline>\<newline>...[TRUNCATED 5 chars]''
   \<and> length (safeStringifyFailureInfo stringify_double long_failure_info) = 12024"
proof -
  have same: "nullish_or_null (JBigInt 1) = JBigInt 1" "nullish_or_null JFunction = JFunction"
    "nullish_or_null (JBool True) = JBool True"
    "nullish_or_null long_failure_info = long_failure_info"
    "nullish_or_null JUndefined = JNull"
    by (simp_all add: nullish_or_null_def long_failure_info_def)
  have five: "show_nat 5 = lit ''5''"
    by (simp add: show_nat.simps digit_unit_def lit_def)
  have thrown: "safeStringifyFailureInfo stringify_double (JBigInt 1) = lit ''null''"
    using failure_info_serialization_total [where stringify = stringify_double
        and x = "JBigInt 1" and err = "OtherError (Some (lit ''TypeError''))" and json = "[]"]
      stringify_double_outcomes(1) [of 1] same(1)
    by simp
  have unserialized: "safeStringifyFailureInfo stringify_double JFunction = lit ''null''"
    using failure_info_serialization_total [where stringify = stringify_double
        and x = JFunction and err = "OtherError None" and json = "[]"]
      stringify_double_outcomes(2) same(2)
    by simp
  have absent: "safeStringifyFailureInfo stringify_double JUndefined = lit ''null''"
    using failure_info_serialization_total [where stringify = stringify_double
        and x = JUndefined and err = "OtherError None" and json = "lit ''null''"]
      stringify_double_outcomes(3) same(5)
    by (simp add: length_lit)
  have short: "safeStringifyFailureInfo stringify_double (JBool True) = lit ''true''"
    using failure_info_serialization_total [where stringify = stringify_double
        and x = "JBool True" and err = "OtherError None" and json = "lit ''true''"]
      stringify_double_outcomes(4) same(3)
    by (simp add: length_lit)
  note long = failure_info_serialization_total [where stringify = stringify_double
        and x = long_failure_info and err = "OtherError None"
        and json = "0x22 # replicate 12003 0x61 @ [0x22]"]
  have cut: "safeStringifyFailureInfo stringify_double long_failure_info
      = 0x22 # replicate 11999 0x61 @ lit ''\<newline>\<newline>...[TRUNCATED 5 chars]''"
    using long stringify_double_long same(4)
    by (simp add: five lit_def)
  have len: "length (safeStringifyFailureInfo stringify_double long_failure_info) = 12024"
    using long stringify_double_long same(4)
    by (simp add: five length_lit)
  from stringify_double_outcomes(1) [of 1] thrown stringify_double_outcomes(2) unserialized absent
    short stringify_double_long(1) cut len
  show ?thesis by (intro conjI)
qed

section \<open>The timeout\<close>

text \<open>
  Claim C4 says that a non-numeric \<open>CRITIQUE_TIMEOUT_MS\<close> falls back to 45,000.  In the
  handler the fallback \<open>|| 45_000\<close> is taken before \<open>Number\<close> is applied, so it covers
  the unset and the empty variable only: with the variable set to \<open>abc\<close> the timer is
  armed with \<open>NaN\<close>.
\<close>

theorem timeout_non_numeric_is_NaN:
  "CRITIQUE_TIMEOUT_MS env_timeout_abc = Some (lit ''abc'')
   \<and> timeoutMs env_timeout_abc = NaN
   \<and> timeoutMs env_timeout_abc \<noteq> Num 45000
   \<and> hd (snd (POST stringify_double endpoint_resolving uuid0
        (json_request (JObject members_valid)) env_timeout_abc)) = SetTimeout NaN"
proof -
  have nan: "timeoutMs env_timeout_abc = NaN"
    by (simp add: timeoutMs_def env_timeout_abc_def Number_of_string_def trim_def
        is_white_space_def non_decimal_integer_literal_def decimal_literal_def
        unsigned_decimal_literal_def is_decimal_digit_def lit_def)
  have cred: "has_credential env_timeout_abc"
    by (simp add: has_credential_def env_timeout_abc_def lit_def)
  have var: "CRITIQUE_TIMEOUT_MS env_timeout_abc = Some (lit ''abc'')"
    by (simp add: env_timeout_abc_def)
  show ?thesis
    by (simp add: POST_invoked [OF declares_json_examples(1) cred json_body_examples(1)
          parse_members_valid] nan var)
qed

lemma timeout_unset: "CRITIQUE_TIMEOUT_MS env = None \<Longrightarrow> timeoutMs env = Num 45000"
  by (simp add: timeoutMs_def)

lemma timeout_empty: "CRITIQUE_TIMEOUT_MS env = Some [] \<Longrightarrow> timeoutMs env = Num 45000"
  by (simp add: timeoutMs_def)

subsection \<open>Rounding to a double\<close>

text \<open>
  \<open>binade\<close> finds the power of two at or below a positive rational, a natural number
  below \<open>2^53\<close> is a double and is left as it is, and every value from \<open>2^1024\<close> on is
  rounded to \<open>Infinity\<close>.
\<close>

lemma bit_length_one: "bit_length 1 = 1"
  by (simp add: bit_length.simps)

lemma bit_length_bounds:
  "0 < n \<Longrightarrow> 0 < bit_length n \<and> 2 ^ nat (bit_length n - 1) \<le> n \<and> n < 2 ^ nat (bit_length n)"
proof (induction n rule: bit_length.induct)
  case (1 n)
  show ?case
  proof (cases "n = 1")
    case True
    then show ?thesis by (simp add: bit_length_one)
  next
    case False
    with 1(2) have h: "0 < n div 2" by simp
    from 1(2) have n: "\<not> n \<le> 0" by simp
    from 1(1) [OF n h] have ih: "0 < bit_length (n div 2)"
      "2 ^ nat (bit_length (n div 2) - 1) \<le> n div 2" "n div 2 < 2 ^ nat (bit_length (n div 2))"
      by simp_all
    from 1(2) have bl: "bit_length n = 1 + bit_length (n div 2)"
      by (simp add: bit_length.simps [of n])
    from ih(1) have e: "nat (bit_length (n div 2)) = Suc (nat (bit_length (n div 2) - 1))"
      by simp
    have lo: "2 ^ nat (bit_length n - 1) \<le> n"
    proof -
      have "(2::int) ^ nat (bit_length n - 1) = 2 * 2 ^ nat (bit_length (n div 2) - 1)"
        using e by (simp add: bl)
      also have "\<dots> \<le> 2 * (n div 2)" using ih(2) by simp
      also have "\<dots> \<le> n" by simp
      finally show ?thesis .
    qed
    have hi: "n < 2 ^ nat (bit_length n)"
    proof -
      have "n < 2 * (n div 2 + 1)" by presburger
      also have "\<dots> \<le> 2 * 2 ^ nat (bit_length (n div 2))" using ih(3) by simp
      also have "\<dots> = 2 ^ nat (bit_length n)"
        using ih(1) by (simp add: bl nat_add_distrib)
      finally show ?thesis .
    qed
    from ih(1) lo hi show ?thesis by (simp add: bl)
  qed
qed

lemma round_half_even_of_int: "round_half_even (of_int z) = z"
  by (simp add: round_half_even_def)

lemma binade_of_nat:
  assumes "0 < n"
  shows "binade (of_nat n) = bit_length (int n) - 1"
proof -
  from assms have pos: "0 < int n" by simp
  from bit_length_bounds [OF pos] have k0: "0 \<le> bit_length (int n) - 1"
    and lo: "2 ^ nat (bit_length (int n) - 1) \<le> int n"
    by simp_all
  have q: "quotient_of (of_nat n) = (int n, 1)"
    using quotient_of_int [of "int n"] by simp
  have "(of_int (2 ^ nat (bit_length (int n) - 1)) :: rat) \<le> of_int (int n)"
    using lo by (simp only: of_int_le_iff)
  then have "(2::rat) ^ nat (bit_length (int n) - 1) \<le> of_nat n"
    by simp
  with k0 show ?thesis
    by (simp add: binade_def q bit_length_one pow2_def)
qed

lemma bit_length_below:
  assumes "0 < n" "n < 2 ^ 53"
  shows "bit_length (int n) - 1 \<le> 52" "0 \<le> bit_length (int n) - 1"
proof -
  from assms have pos: "0 < int n" by simp
  from bit_length_bounds [OF pos] have k0: "0 \<le> bit_length (int n) - 1"
    and lo: "2 ^ nat (bit_length (int n) - 1) \<le> int n"
    by simp_all
  from assms(2) have "int n < 2 ^ 53" by simp
  with lo have "(2::int) ^ nat (bit_length (int n) - 1) < 2 ^ 53" by (rule le_less_trans)
  then have "nat (bit_length (int n) - 1) < 53"
    by (rule power_less_imp_less_exp [rotated]) simp
  with k0 show "bit_length (int n) - 1 \<le> 52" by simp
  from k0 show "0 \<le> bit_length (int n) - 1" .
qed

lemma to_double_exact:
  assumes "n < 2 ^ 53"
  shows "to_double (of_nat n) = Num (of_nat n)"
proof (cases "n = 0")
  case True
  then show ?thesis by (simp add: to_double_def)
next
  case False
  then have pos: "0 < n" by simp
  define k where "k = bit_length (int n) - 1"
  from bit_length_below [OF pos assms] have k52: "k \<le> 52" and k0: "0 \<le> k"
    by (simp_all add: k_def)
  have b: "binade (of_nat n) = k"
    by (simp add: binade_of_nat [OF pos] k_def)
  define m where "m = nat (52 - k)"
  from k0 k52 have ulp: "pow2 (k - 52) = 1 / 2 ^ m"
    by (cases "k = 52") (simp_all add: pow2_def m_def)
  have scaled: "(of_nat n :: rat) / (1 / 2 ^ m) = of_int (int n * 2 ^ m)"
    by simp
  have unscaled: "(of_int (int n * 2 ^ m) :: rat) * (1 / 2 ^ m) = of_nat n"
    by simp
  have big: "\<not> pow2 1024 \<le> (of_nat n :: rat)"
  proof -
    from assms have "(of_nat n :: rat) < of_nat (2 ^ 53)"
      by (simp only: of_nat_less_iff)
    then have "(of_nat n :: rat) < 2 ^ 53" by simp
    also have "\<dots> \<le> 2 ^ 1024" by (rule power_increasing) simp_all
    finally show ?thesis by (simp add: pow2_def)
  qed
  have e: "max k (- 1022) = k" using k0 by simp
  have a: "\<bar>of_nat n :: rat\<bar> = of_nat n" by simp
  have nz: "(of_nat n :: rat) \<noteq> 0" "\<not> (of_nat n :: rat) < 0" using False by simp_all
  show ?thesis
    unfolding to_double_def Let_def a b e ulp scaled round_half_even_of_int unscaled
    using nz big by simp
qed

lemma pow2_powi: "pow2 k = 2 powi k"
  by (simp add: pow2_def power_int_def power_one_over)

lemma round_half_even_ge_floor: "\<lfloor>x\<rfloor> \<le> round_half_even x"
  by (simp add: round_half_even_def Let_def)

lemma round_half_even_nearest: "\<bar>of_int (round_half_even x) - x\<bar> \<le> 1 / 2"
proof -
  have "of_int \<lfloor>x\<rfloor> \<le> x" "x < of_int \<lfloor>x\<rfloor> + 1" by linarith+
  then show ?thesis
    by (auto simp add: round_half_even_def Let_def abs_le_iff)
qed

lemma round_half_even_tie: "x - of_int \<lfloor>x\<rfloor> = 1 / 2 \<Longrightarrow> even (round_half_even x)"
  by (simp add: round_half_even_def Let_def)

lemma binade_bounds:
  assumes "0 < a"
  shows "2 powi (binade a) \<le> a" "a < 2 powi (binade a + 1)"
proof -
  obtain p q where pq: "quotient_of a = (p, q)" by (cases "quotient_of a")
  then have q: "0 < q" by (rule quotient_of_denom_pos)
  from pq have a: "a = of_int p / of_int q" by (rule quotient_of_div)
  with assms q have p: "0 < p" by (simp add: zero_less_divide_iff)
  define bp where "bp = bit_length p"
  define bq where "bq = bit_length q"
  from bit_length_bounds [OF p] have bp: "0 < bp" "2 ^ nat (bp - 1) \<le> p" "p < 2 ^ nat bp"
    by (simp_all add: bp_def)
  from bit_length_bounds [OF q] have bq: "0 < bq" "2 ^ nat (bq - 1) \<le> q" "q < 2 ^ nat bq"
    by (simp_all add: bq_def)
  have rp: "(2::rat) powi (bp - 1) \<le> of_int p" "(of_int p :: rat) < 2 powi bp"
  proof -
    have "(of_int (2 ^ nat (bp - 1)) :: rat) \<le> of_int p"
      using bp(2) by (simp only: of_int_le_iff)
    then show "(2::rat) powi (bp - 1) \<le> of_int p"
      using bp(1) by (simp add: power_int_def)
    have "(of_int p :: rat) < of_int (2 ^ nat bp)"
      using bp(3) by (simp only: of_int_less_iff)
    then show "(of_int p :: rat) < 2 powi bp"
      using bp(1) by (simp add: power_int_def)
  qed
  have rq: "(2::rat) powi (bq - 1) \<le> of_int q" "(of_int q :: rat) < 2 powi bq"
  proof -
    have "(of_int (2 ^ nat (bq - 1)) :: rat) \<le> of_int q"
      using bq(2) by (simp only: of_int_le_iff)
    then show "(2::rat) powi (bq - 1) \<le> of_int q"
      using bq(1) by (simp add: power_int_def)
    have "(of_int q :: rat) < of_int (2 ^ nat bq)"
      using bq(3) by (simp only: of_int_less_iff)
    then show "(of_int q :: rat) < 2 powi bq"
      using bq(1) by (simp add: power_int_def)
  qed
  have qpos: "(0::rat) < of_int q" using q by simp
  have lower: "(2::rat) powi (bp - bq - 1) < a"
  proof -
    have "(2::rat) powi (bp - bq - 1) * of_int q < 2 powi (bp - bq - 1) * 2 powi bq"
      using rq(2) by (simp add: mult_strict_left_mono)
    also have "\<dots> = 2 powi (bp - 1)"
      by (simp add: power_int_add [symmetric])
    also have "\<dots> \<le> of_int p" by (rule rp(1))
    finally show ?thesis
      using qpos by (simp add: a pos_less_divide_eq)
  qed
  have upper: "a < (2::rat) powi (bp - bq + 1)"
  proof -
    have "(of_int p :: rat) < 2 powi bp" by (rule rp(2))
    also have "\<dots> = 2 powi (bp - bq + 1) * 2 powi (bq - 1)"
      by (simp add: power_int_add [symmetric])
    also have "\<dots> \<le> 2 powi (bp - bq + 1) * of_int q"
      using rq(1) by (simp add: mult_left_mono)
    finally show ?thesis
      using qpos by (simp add: a pos_divide_less_eq)
  qed
  have b: "binade a = (if 2 powi (bp - bq) \<le> a then bp - bq else bp - bq - 1)"
    by (simp add: binade_def pq bp_def bq_def pow2_powi Let_def)
  from lower show "2 powi (binade a) \<le> a"
    by (simp add: b)
  from upper show "a < 2 powi (binade a + 1)"
    by (auto simp add: b not_le)
qed

lemma to_double_overflow:
  assumes "2 ^ 1024 \<le> q"
  shows "to_double q = PosInfinity"
proof -
  have "(0::rat) < 2 ^ 1024" by simp
  from this assms have pos: "0 < q" by (rule less_le_trans)
  define e where "e = binade q"
  from binade_bounds [OF pos] have lo: "2 powi e \<le> q" and hi: "q < 2 powi (e + 1)"
    by (simp_all add: e_def)
  have e: "1024 \<le> e"
  proof (rule ccontr)
    assume "\<not> 1024 \<le> e"
    then have "e + 1 \<le> 1024" by simp
    then have "(2::rat) powi (e + 1) \<le> 2 powi 1024"
      by (rule power_int_increasing) simp
    with hi have "q < 2 powi 1024" by simp
    with assms show False by simp
  qed
  define ulp :: rat where "ulp = 2 powi (e - 52)"
  define r where "r = round_half_even (q / ulp)"
  have ulp: "0 < ulp" by (simp add: ulp_def)
  have split: "(2::rat) powi e = 2 powi 52 * ulp"
    unfolding ulp_def by (subst power_int_add [symmetric]) simp_all
  have p52: "(2::rat) powi 52 = of_int (2 ^ 52)" by simp
  from lo have "2 powi 52 * ulp \<le> q" by (simp only: split)
  then have "2 powi 52 \<le> q / ulp" by (simp only: pos_le_divide_eq [OF ulp])
  then have "(of_int (2 ^ 52) :: rat) \<le> q / ulp" by (simp only: p52)
  then have "2 ^ 52 \<le> \<lfloor>q / ulp\<rfloor>" by (simp only: le_floor_iff)
  also have "\<dots> \<le> r" unfolding r_def by (rule round_half_even_ge_floor)
  finally have "(of_int (2 ^ 52) :: rat) \<le> of_int r"
    by (simp only: of_int_le_iff)
  then have "(2::rat) powi 52 \<le> of_int r" by (simp only: p52)
  then have "2 powi 52 * ulp \<le> of_int r * ulp"
    using ulp by (simp only: mult_le_cancel_right_pos)
  then have "2 powi e \<le> of_int r * ulp" by (simp only: split)
  moreover have "(2::rat) powi 1024 \<le> 2 powi e"
    using e by (rule power_int_increasing) simp
  ultimately have "2 powi 1024 \<le> of_int r * ulp" by (rule order_trans [rotated])
  then have big: "pow2 1024 \<le> of_int (round_half_even (q / ulp)) * ulp"
    by (simp only: pow2_powi r_def)
  from e have m: "max e (- 1022) = e" by simp
  from pos have a: "\<bar>q\<bar> = q" "q \<noteq> 0" "\<not> q < 0" by simp_all
  show ?thesis
    unfolding to_double_def Let_def a e_def [symmetric] m pow2_powi [of "e - 52"] ulp_def [symmetric]
    using a big by simp
qed

lemma floor_rat_numeral: "\<lfloor>(numeral a :: rat) / numeral b\<rfloor> = numeral a div numeral b"
  using floor_divide_of_int_eq [of "numeral a" "numeral b", where ?'a = rat] by simp

lemma rounding_examples:
  "to_double 10 = Num 10"
  "to_double 9007199254740993 = Num 9007199254740992"
  "to_double (10 ^ 400) = PosInfinity"
proof -
  show "to_double 10 = Num 10"
    using to_double_exact [of 10] by simp
  have bl: "bit_length 9007199254740993 = 54"
    by (simp add: bit_length.simps)
  have b: "binade 9007199254740993 = 53"
    by (simp add: binade_def bl bit_length_one pow2_def)
  show "to_double 9007199254740993 = Num 9007199254740992"
    by (simp add: to_double_def b pow2_def round_half_even_def Let_def floor_rat_numeral)
  show "to_double (10 ^ 400) = PosInfinity"
    by (rule to_double_overflow) simp
qed

subsection \<open>The configured timeout\<close>

lemma timeout_10: "timeoutMs env_timeout_10 = Num 10"
proof -
  have "timeoutMs env_timeout_10 = to_double 10"
    by (simp add: timeoutMs_def env_timeout_10_def Number_of_string_def trim_def
      is_white_space_def non_decimal_integer_literal_def decimal_literal_def
      unsigned_decimal_literal_def is_decimal_digit_def exponent_part_opt_def
      scale10_def read_nat_def digit_value_def lit_def)
  then show ?thesis by (simp only: rounding_examples(1))
qed

text \<open>
  A variable set to a decimal numeral gives the double nearest to the value of the
  numeral, which is the value itself below \<open>2^53\<close>.
\<close>

lemma digit_not_white_space: "is_decimal_digit c \<Longrightarrow> \<not> is_white_space c"
  by (auto simp add: is_decimal_digit_def is_white_space_def word_le_nat_alt)

lemma trim_digits:
  assumes "ds \<noteq> []" "list_all is_decimal_digit ds"
  shows "trim ds = ds"
proof -
  from assms have h: "\<not> is_white_space (hd ds)" and l: "\<not> is_white_space (last ds)"
    by (simp_all add: digit_not_white_space list_all_iff)
  from assms(1) h have a: "dropWhile is_white_space ds = ds"
    by (cases ds) simp_all
  from assms(1) l have "dropWhile is_white_space (rev ds) = rev ds"
    by (cases "rev ds") (simp_all add: last_rev [symmetric] hd_rev)
  with a show ?thesis by (simp add: trim_def)
qed

lemma non_decimal_of_digits:
  "list_all is_decimal_digit ds \<Longrightarrow> non_decimal_integer_literal ds = None"
  by (auto simp add: non_decimal_integer_literal_def is_decimal_digit_def
      split: list.splits)

lemma unsigned_decimal_of_digits:
  assumes "ds \<noteq> []" "list_all is_decimal_digit ds"
  shows "unsigned_decimal_literal ds = Some (to_double (of_nat (read_nat ds)))"
proof -
  from assms have "is_decimal_digit (hd ds)"
    by (cases ds) simp_all
  moreover have "\<not> is_decimal_digit (hd (lit ''Infinity''))"
    by (simp add: lit_def is_decimal_digit_def)
  ultimately have ne: "ds \<noteq> lit ''Infinity''" by auto
  from assms(2) have tw: "takeWhile is_decimal_digit ds = ds"
    and dw: "dropWhile is_decimal_digit ds = []"
    by (simp_all add: list_all_iff)
  from ne assms(1) show ?thesis
    by (simp add: unsigned_decimal_literal_def tw dw exponent_part_opt_def scale10_def)
qed

lemma decimal_of_digits:
  assumes "ds \<noteq> []" "list_all is_decimal_digit ds"
  shows "decimal_literal ds = Some (to_double (of_nat (read_nat ds)))"
proof -
  from assms obtain c cs where ds: "ds = c # cs" and c: "is_decimal_digit c"
    by (cases ds) auto
  from c have "c \<noteq> 0x2B" "c \<noteq> 0x2D"
    by (auto simp add: is_decimal_digit_def)
  with ds unsigned_decimal_of_digits [OF assms] show ?thesis
    by (simp add: decimal_literal_def)
qed

lemma Number_of_digits:
  assumes "ds \<noteq> []" "list_all is_decimal_digit ds"
  shows "Number_of_string ds = to_double (of_nat (read_nat ds))"
  using assms
  by (simp add: Number_of_string_def trim_digits non_decimal_of_digits decimal_of_digits)

lemma timeout_configured:
  "CRITIQUE_TIMEOUT_MS env = Some ds \<Longrightarrow> ds \<noteq> [] \<Longrightarrow> list_all is_decimal_digit ds \<Longrightarrow>
   timeoutMs env = to_double (of_nat (read_nat ds))"
  by (simp add: timeoutMs_def Number_of_digits)

lemma timeout_configured_exact:
  "CRITIQUE_TIMEOUT_MS env = Some ds \<Longrightarrow> ds \<noteq> [] \<Longrightarrow> list_all is_decimal_digit ds \<Longrightarrow>
   read_nat ds < 2 ^ 53 \<Longrightarrow> timeoutMs env = Num (of_nat (read_nat ds))"
  using timeout_configured [of env ds] to_double_exact [of "read_nat ds"] by simp

text \<open>
  Beyond \<open>2^53\<close> the numeral is rounded, and a literal with a large exponent overflows.
\<close>

lemma Number_rounds:
  "Number_of_string (lit ''9007199254740993'') = Num 9007199254740992"
proof -
  have ds: "lit ''9007199254740993'' \<noteq> []" "list_all is_decimal_digit (lit ''9007199254740993'')"
    by (simp_all add: lit_def is_decimal_digit_def)
  have "read_nat (lit ''9007199254740993'') = 9007199254740993"
    by (simp add: read_nat_def digit_value_def lit_def)
  then show ?thesis
    by (simp add: Number_of_digits [OF ds] rounding_examples(2))
qed

lemma Number_overflows:
  "Number_of_string (lit ''1e400'') = PosInfinity"
proof -
  have "Number_of_string (lit ''1e400'') = to_double (scale10 1 400)"
    by (simp add: Number_of_string_def trim_def
      is_white_space_def non_decimal_integer_literal_def decimal_literal_def
      unsigned_decimal_literal_def is_decimal_digit_def exponent_part_opt_def
      signed_integer_def digits_value_def digit_in_base_def
      read_nat_def digit_value_def lit_def)
  moreover have "scale10 1 400 = 10 ^ 400"
    by (simp add: scale10_def)
  ultimately show ?thesis
    by (simp only: rounding_examples(3))
qed

section \<open>The overall cap of the prompt\<close>

lemma length_join_member: "x \<in> set xs \<Longrightarrow> length x \<le> length (join sep xs)"
  by (induction sep xs rule: join.induct) auto

lemma label_in_assembled:
  "label input = Some l \<Longrightarrow> length l \<le> length (assembled_prompt stringify input)"
  unfolding assembled_prompt_def Let_def
  by (rule length_join_member) simp

lemma parse_long_label:
  "CritiqueRequestSchema_parse (JObject (members_valid @ [(lit ''label'', JString long_label)]))
     = Inr request_long_label"
  by (simp add: CritiqueRequestSchema_parse_def schema_issues_def schema_output_def
      get_property_def members_valid_def request_valid_def request_long_label_def
      string_min1_def string_optional_def any_optional_def string_value_def
      optional_string_value_def lit_def)

lemma length_long_label: "length long_label = 60001"
  by (simp add: long_label_def)

lemma trim_examples:
  "trim (lit ''Return sum of list'') = lit ''Return sum of list''"
  "trim (lit ''def f(x): return 0'') = lit ''def f(x): return 0''"
  by (simp_all add: trim_def is_white_space_def lit_def)

lemma length_long_prompt:
  "length (assembled_prompt stringify_double request_long_label) = 61982"
    by (simp add: assembled_prompt_def request_valid_def request_long_label_def
        preamble_lines_def apostrophe_def
        safeStringify_cases nullish_or_null_def stringify_double_def truncate_def trim_examples
        MAX_PRD_CHARS_def MAX_CODE_CHARS_def MAX_FAILUREINFO_CHARS_def
        length_lit long_label_def)

lemma length_long_built:
  "length (buildPrompt stringify_double request_long_label) = 60027"
  by (simp add: buildPrompt_def MAX_PROMPT_CHARS_def length_truncate_beyond length_long_prompt
      length_truncation_marker show_nat.simps)

lemma length_join:
  "length (join sep xs) = sum_list (map length xs) + (length xs - 1) * length sep"
  by (induction sep xs rule: join.induct) simp_all

lemma length_preamble:
  "sum_list (map length preamble_lines) = 1728" "length preamble_lines = 32"
  by (simp_all add: preamble_lines_def apostrophe_def length_lit)

lemma length_assembled_prompt:
  "length (assembled_prompt stringify input) =
     1941 + length (prd_section input) + length (code_section input)
     + length (failure_info_section stringify input) + length (label_section input)"
  by (simp add: assembled_prompt_sections length_join length_preamble length_lit)

text \<open>
  Claim C2 states that the string \<open>buildPrompt\<close> returns never has more than 60,000
  characters.  The final cut is made by \<open>truncate\<close>, which appends its marker after the
  60,000 characters it keeps: for the valid request below, whose label has 60,001
  characters, the prompt returned has 60,027 characters.
\<close>

theorem prompt_cap_counterexample:
  "CritiqueRequestSchema_parse (JObject (members_valid @ [(lit ''label'', JString long_label)]))
     = Inr request_long_label
   \<and> length (buildPrompt stringify_double request_long_label) = 60027
   \<and> \<not> length (buildPrompt stringify_double request_long_label) \<le> 60000"
  by (simp add: parse_long_label length_long_built)

text \<open>
  Claim C2, amended.  The assembled prompt is cut after assembly by \<open>truncate\<close> with the
  cap of 60,000: an assembled prompt of at most 60,000 characters is returned as it is;
  of a longer one the first 60,000 characters are returned, followed by the truncation
  marker.  So the first 60,000 characters returned are those of the assembled prompt,
  and the returned length never exceeds 60,000 plus the length of the marker, which is
  23 plus the number of digits of the dropped count; whenever the cut is made the
  returned length is exactly that, hence above 60,000.  The assembled prompt has 1,941
  fixed characters beside its four sections.
\<close>

theorem prompt_cap:
  "buildPrompt stringify input =
     (if length (assembled_prompt stringify input) \<le> 60000
      then assembled_prompt stringify input
      else take 60000 (assembled_prompt stringify input)
           @ truncation_marker (length (assembled_prompt stringify input) - 60000))
   \<and> take 60000 (buildPrompt stringify input) = take 60000 (assembled_prompt stringify input)
   \<and> length (buildPrompt stringify input)
      \<le> 60000 + (23 + length (show_nat (length (assembled_prompt stringify input) - 60000)))
   \<and> (60000 < length (assembled_prompt stringify input) \<longrightarrow>
        length (buildPrompt stringify input)
          = 60000 + (23 + length (show_nat (length (assembled_prompt stringify input) - 60000)))
        \<and> 60000 < length (buildPrompt stringify input))
   \<and> length (assembled_prompt stringify input) =
        1941 + length (prd_section input) + length (code_section input)
        + length (failure_info_section stringify input) + length (label_section input)"
proof (intro conjI impI)
  show "buildPrompt stringify input =
     (if length (assembled_prompt stringify input) \<le> 60000
      then assembled_prompt stringify input
      else take 60000 (assembled_prompt stringify input)
           @ truncation_marker (length (assembled_prompt stringify input) - 60000))"
    by (simp add: buildPrompt_def MAX_PROMPT_CHARS_def truncate_def)
  show "take 60000 (buildPrompt stringify input) = take 60000 (assembled_prompt stringify input)"
    by (simp add: buildPrompt_def MAX_PROMPT_CHARS_def truncate_def)
  show "length (buildPrompt stringify input)
      \<le> 60000 + (23 + length (show_nat (length (assembled_prompt stringify input) - 60000)))"
    by (simp add: buildPrompt_def MAX_PROMPT_CHARS_def truncate_def length_truncation_marker)
  show "length (assembled_prompt stringify input) =
        1941 + length (prd_section input) + length (code_section input)
        + length (failure_info_section stringify input) + length (label_section input)"
    by (rule length_assembled_prompt)
next
  assume long: "60000 < length (assembled_prompt stringify input)"
  then show len: "length (buildPrompt stringify input)
      = 60000 + (23 + length (show_nat (length (assembled_prompt stringify input) - 60000)))"
    by (simp add: buildPrompt_def MAX_PROMPT_CHARS_def length_truncate_beyond
        length_truncation_marker)
  then show "60000 < length (buildPrompt stringify input)"
    by simp
qed

theorem prompt_cap_witness:
  "length (assembled_prompt stringify_double request_valid) = 1985
   \<and> buildPrompt stringify_double request_valid = assembled_prompt stringify_double request_valid
   \<and> 60000 < length (assembled_prompt stringify_double request_long_label)
   \<and> length (buildPrompt stringify_double request_long_label) = 60000 + (23 + 4)"
proof -
  have short: "length (assembled_prompt stringify_double request_valid) = 1985"
    by (simp add: assembled_prompt_def request_valid_def preamble_lines_def apostrophe_def
        safeStringify_cases nullish_or_null_def stringify_double_def truncate_def
        trim_examples MAX_PRD_CHARS_def MAX_CODE_CHARS_def MAX_FAILUREINFO_CHARS_def
        length_lit)
  have digits: "length (show_nat 1982) = 4"
    by (simp add: show_nat.simps)
  have a: "buildPrompt stringify_double request_valid
      = assembled_prompt stringify_double request_valid"
    using prompt_cap [of stringify_double request_valid] by (simp add: short)
  have long: "60000 < length (assembled_prompt stringify_double request_long_label)"
    by (simp add: length_long_prompt)
  have b: "length (buildPrompt stringify_double request_long_label) = 60000 + (23 + 4)"
    using prompt_cap [of stringify_double request_long_label] long
    by (simp add: length_long_prompt digits length_truncation_marker)
  from short a long b show ?thesis
    by (intro conjI)
qed

section \<open>What the validator accepts and reports\<close>

lemma string_min1_empty_iff: "string_min1 k v = [] \<longleftrightarrow> is_nonempty_string v"
  by (cases v) (simp_all add: string_min1_def is_nonempty_string_def)

lemma string_optional_empty_iff: "string_optional k v = [] \<longleftrightarrow> absent_or_string v"
  by (cases v) (simp_all add: string_optional_def absent_or_string_def)

lemma schema_issues_empty_iff:
  "schema_issues ms = [] \<longleftrightarrow>
     is_nonempty_string (get_property ms (lit ''id''))
     \<and> is_nonempty_string (get_property ms (lit ''prd''))
     \<and> is_nonempty_string (get_property ms (lit ''buggy_solution_code''))
     \<and> absent_or_string (get_property ms (lit ''label''))
     \<and> absent_or_string (get_property ms (lit ''qwq_critique''))"
  by (simp add: schema_issues_def string_min1_empty_iff string_optional_empty_iff
      any_optional_def)

lemma string_min1_issue:
  "\<not> is_nonempty_string v \<Longrightarrow>
   string_min1 k v = [Issue (if v = JString [] then too_small else invalid_type) [k]]"
  by (cases v) (simp_all add: string_min1_def is_nonempty_string_def)

lemma required_issue_listed:
  assumes "k \<in> {lit ''id'', lit ''prd'', lit ''buggy_solution_code''}"
    and "\<not> is_nonempty_string (get_property ms k)"
  shows "Issue (if get_property ms k = JString [] then too_small else invalid_type) [k]
           \<in> set (schema_issues ms)"
  using assms by (auto simp add: schema_issues_def string_min1_issue)

lemma parse_object:
  "CritiqueRequestSchema_parse (JObject ms) =
     (if schema_issues ms = [] then Inr (schema_output ms) else Inl (schema_issues ms))"
  by (simp add: CritiqueRequestSchema_parse_def)

lemma parse_non_object:
  "\<not> is_object v \<Longrightarrow> CritiqueRequestSchema_parse v = Inl [Issue invalid_type []]"
  by (cases v) (simp_all add: CritiqueRequestSchema_parse_def is_object_def)

text \<open>
  Claim C7 states that every JSON object whose \<open>id\<close>, \<open>prd\<close> and
  \<open>buggy_solution_code\<close> are non-empty strings is accepted, and that every input with a
  required field missing or empty is answered with issues naming each violated field.
  The object below has the three required strings and is rejected, because its \<open>label\<close>
  is \<open>null\<close> and its \<open>qwq_critique\<close> is a number; and the input \<open>null\<close>, which has none
  of the required fields, is answered with one issue at the empty path.
\<close>

theorem validator_counterexample:
  "is_nonempty_string (get_property members_bad_optionals (lit ''id''))
   \<and> is_nonempty_string (get_property members_bad_optionals (lit ''prd''))
   \<and> is_nonempty_string (get_property members_bad_optionals (lit ''buggy_solution_code''))
   \<and> CritiqueRequestSchema_parse (JObject members_bad_optionals)
       = Inl [Issue invalid_type [lit ''label''], Issue invalid_type [lit ''qwq_critique'']]
   \<and> CritiqueRequestSchema_parse JNull = Inl [Issue invalid_type []]"
  by (simp add: CritiqueRequestSchema_parse_def schema_issues_def
      get_property_def members_bad_optionals_def members_valid_def string_min1_def
      string_optional_def any_optional_def is_nonempty_string_def lit_def)

lemma string_min1_cases:
  "string_min1 k v =
     (if is_nonempty_string v then []
      else [Issue (if v = JString [] then too_small else invalid_type) [k]])"
  by (simp add: string_min1_issue string_min1_empty_iff)

lemma string_optional_cases:
  "string_optional k v = (if absent_or_string v then [] else [Issue invalid_type [k]])"
  by (cases v) (simp_all add: string_optional_def absent_or_string_def)

lemma optional_issue_listed:
  assumes "j \<in> {lit ''label'', lit ''qwq_critique''}"
    and "\<not> absent_or_string (get_property ms j)"
  shows "Issue invalid_type [j] \<in> set (schema_issues ms)"
  using assms by (auto simp add: schema_issues_def string_optional_cases)

lemma field_names_distinct:
  "lit ''id'' \<noteq> lit ''prd''" "lit ''id'' \<noteq> lit ''buggy_solution_code''"
  "lit ''id'' \<noteq> lit ''label''" "lit ''id'' \<noteq> lit ''qwq_critique''"
  "lit ''prd'' \<noteq> lit ''buggy_solution_code''" "lit ''prd'' \<noteq> lit ''label''"
  "lit ''prd'' \<noteq> lit ''qwq_critique''" "lit ''buggy_solution_code'' \<noteq> lit ''label''"
  "lit ''buggy_solution_code'' \<noteq> lit ''qwq_critique''" "lit ''label'' \<noteq> lit ''qwq_critique''"
  by (simp_all add: lit_def)

lemma schema_issues_sound:
  assumes "i \<in> set (schema_issues ms)"
  shows "\<exists>f. path i = [f]
           \<and> ((f \<in> {lit ''id'', lit ''prd'', lit ''buggy_solution_code''}
                \<and> \<not> is_nonempty_string (get_property ms f)
                \<and> code i = (if get_property ms f = JString [] then too_small
                             else invalid_type))
              \<or> (f \<in> {lit ''label'', lit ''qwq_critique''}
                  \<and> \<not> absent_or_string (get_property ms f)
                  \<and> code i = invalid_type))"
proof -
  from assms consider
      (id) "i \<in> set (string_min1 (lit ''id'') (get_property ms (lit ''id'')))"
    | (prd) "i \<in> set (string_min1 (lit ''prd'') (get_property ms (lit ''prd'')))"
    | (code) "i \<in> set (string_min1 (lit ''buggy_solution_code'')
                       (get_property ms (lit ''buggy_solution_code'')))"
    | (label) "i \<in> set (string_optional (lit ''label'') (get_property ms (lit ''label'')))"
    | (qwq) "i \<in> set (string_optional (lit ''qwq_critique'')
                      (get_property ms (lit ''qwq_critique'')))"
    by (auto simp add: schema_issues_def any_optional_def)
  then show ?thesis
  proof cases
    case id
    then show ?thesis
      by (intro exI [of _ "lit ''id''"]) (auto simp add: string_min1_cases split: if_splits)
  next
    case prd
    then show ?thesis
      by (intro exI [of _ "lit ''prd''"]) (auto simp add: string_min1_cases split: if_splits)
  next
    case code
    then show ?thesis
      by (intro exI [of _ "lit ''buggy_solution_code''"])
        (auto simp add: string_min1_cases split: if_splits)
  next
    case label
    then show ?thesis
      by (intro exI [of _ "lit ''label''"])
        (auto simp add: string_optional_cases split: if_splits)
  next
    case qwq
    then show ?thesis
      by (intro exI [of _ "lit ''qwq_critique''"])
        (auto simp add: string_optional_cases split: if_splits)
  qed
qed

lemma schema_issues_distinct: "distinct (map path (schema_issues ms))"
  by (simp add: schema_issues_def string_min1_cases string_optional_cases any_optional_def
      field_names_distinct)

text \<open>
  Claim C7, amended.  A JSON object is accepted exactly when \<open>id\<close>, \<open>prd\<close> and
  \<open>buggy_solution_code\<close> are strings of length at least 1 and \<open>label\<close> and
  \<open>qwq_critique\<close> are each absent or a string (\<open>failure_info\<close> and \<open>meta\<close> may be
  anything or absent).  For a JSON object that is rejected, the reported issues name
  the violated fields and nothing else: every required field that is missing, not a
  string or empty has an issue with the path of that field, \<open>too_small\<close> for the empty
  string and \<open>invalid_type\<close> otherwise; each of \<open>label\<close> and \<open>qwq_critique\<close> that is
  present and not a string has an issue \<open>invalid_type\<close> with its path; every issue of the
  list is one of these; and no two issues have the same path.  An input that is not an
  object is rejected with the single issue \<open>invalid_type\<close> at the empty path.
\<close>

theorem validator_accepts_and_reports:
  "((\<exists>r. CritiqueRequestSchema_parse (JObject ms) = Inr r) \<longleftrightarrow>
      is_nonempty_string (get_property ms (lit ''id''))
      \<and> is_nonempty_string (get_property ms (lit ''prd''))
      \<and> is_nonempty_string (get_property ms (lit ''buggy_solution_code''))
      \<and> absent_or_string (get_property ms (lit ''label''))
      \<and> absent_or_string (get_property ms (lit ''qwq_critique'')))
   \<and> (k \<in> {lit ''id'', lit ''prd'', lit ''buggy_solution_code''}
       \<and> \<not> is_nonempty_string (get_property ms k) \<longrightarrow>
      (\<exists>issues. CritiqueRequestSchema_parse (JObject ms) = Inl issues
         \<and> Issue (if get_property ms k = JString [] then too_small else invalid_type) [k]
             \<in> set issues))
   \<and> (j \<in> {lit ''label'', lit ''qwq_critique''}
       \<and> \<not> absent_or_string (get_property ms j) \<longrightarrow>
      (\<exists>issues. CritiqueRequestSchema_parse (JObject ms) = Inl issues
         \<and> Issue invalid_type [j] \<in> set issues))
   \<and> (CritiqueRequestSchema_parse (JObject ms) = Inl reported \<and> i \<in> set reported \<longrightarrow>
      (\<exists>f. path i = [f]
         \<and> ((f \<in> {lit ''id'', lit ''prd'', lit ''buggy_solution_code''}
              \<and> \<not> is_nonempty_string (get_property ms f)
              \<and> code i = (if get_property ms f = JString [] then too_small
                           else invalid_type))
            \<or> (f \<in> {lit ''label'', lit ''qwq_critique''}
                \<and> \<not> absent_or_string (get_property ms f)
                \<and> code i = invalid_type))))
   \<and> (CritiqueRequestSchema_parse (JObject ms) = Inl reported \<longrightarrow>
        reported \<noteq> [] \<and> distinct (map path reported))
   \<and> (\<not> is_object v \<longrightarrow> CritiqueRequestSchema_parse v = Inl [Issue invalid_type []])"
proof -
  have accepted: "(\<exists>r. CritiqueRequestSchema_parse (JObject ms) = Inr r) \<longleftrightarrow>
      is_nonempty_string (get_property ms (lit ''id''))
      \<and> is_nonempty_string (get_property ms (lit ''prd''))
      \<and> is_nonempty_string (get_property ms (lit ''buggy_solution_code''))
      \<and> absent_or_string (get_property ms (lit ''label''))
      \<and> absent_or_string (get_property ms (lit ''qwq_critique''))"
    by (simp add: parse_object schema_issues_empty_iff [symmetric])
  have required: "k \<in> {lit ''id'', lit ''prd'', lit ''buggy_solution_code''}
       \<and> \<not> is_nonempty_string (get_property ms k) \<longrightarrow>
      (\<exists>issues. CritiqueRequestSchema_parse (JObject ms) = Inl issues
         \<and> Issue (if get_property ms k = JString [] then too_small else invalid_type) [k]
             \<in> set issues)"
  proof
    assume h: "k \<in> {lit ''id'', lit ''prd'', lit ''buggy_solution_code''}
       \<and> \<not> is_nonempty_string (get_property ms k)"
    then have listed:
      "Issue (if get_property ms k = JString [] then too_small else invalid_type) [k]
           \<in> set (schema_issues ms)"
      by (simp add: required_issue_listed)
    then have "schema_issues ms \<noteq> []" by auto
    with listed show "\<exists>issues. CritiqueRequestSchema_parse (JObject ms) = Inl issues
         \<and> Issue (if get_property ms k = JString [] then too_small else invalid_type) [k]
             \<in> set issues"
      by (simp add: parse_object)
  qed
  have optional: "j \<in> {lit ''label'', lit ''qwq_critique''}
       \<and> \<not> absent_or_string (get_property ms j) \<longrightarrow>
      (\<exists>issues. CritiqueRequestSchema_parse (JObject ms) = Inl issues
         \<and> Issue invalid_type [j] \<in> set issues)"
  proof
    assume h: "j \<in> {lit ''label'', lit ''qwq_critique''}
       \<and> \<not> absent_or_string (get_property ms j)"
    then have listed: "Issue invalid_type [j] \<in> set (schema_issues ms)"
      by (simp add: optional_issue_listed)
    then have "schema_issues ms \<noteq> []" by auto
    with listed show "\<exists>issues. CritiqueRequestSchema_parse (JObject ms) = Inl issues
         \<and> Issue invalid_type [j] \<in> set issues"
      by (simp add: parse_object)
  qed
  have sound: "CritiqueRequestSchema_parse (JObject ms) = Inl reported \<and> i \<in> set reported \<longrightarrow>
      (\<exists>f. path i = [f]
         \<and> ((f \<in> {lit ''id'', lit ''prd'', lit ''buggy_solution_code''}
              \<and> \<not> is_nonempty_string (get_property ms f)
              \<and> code i = (if get_property ms f = JString [] then too_small
                           else invalid_type))
            \<or> (f \<in> {lit ''label'', lit ''qwq_critique''}
                \<and> \<not> absent_or_string (get_property ms f)
                \<and> code i = invalid_type)))"
  proof
    assume h: "CritiqueRequestSchema_parse (JObject ms) = Inl reported \<and> i \<in> set reported"
    then have "reported = schema_issues ms"
      by (simp add: parse_object split: if_splits)
    with h have "i \<in> set (schema_issues ms)" by simp
    then show "\<exists>f. path i = [f]
         \<and> ((f \<in> {lit ''id'', lit ''prd'', lit ''buggy_solution_code''}
              \<and> \<not> is_nonempty_string (get_property ms f)
              \<and> code i = (if get_property ms f = JString [] then too_small
                           else invalid_type))
            \<or> (f \<in> {lit ''label'', lit ''qwq_critique''}
                \<and> \<not> absent_or_string (get_property ms f)
                \<and> code i = invalid_type))"
      by (rule schema_issues_sound)
  qed
  have once: "CritiqueRequestSchema_parse (JObject ms) = Inl reported \<longrightarrow>
        reported \<noteq> [] \<and> distinct (map path reported)"
    using schema_issues_distinct [of ms] by (auto simp add: parse_object split: if_splits)
  have other: "\<not> is_object v \<longrightarrow> CritiqueRequestSchema_parse v = Inl [Issue invalid_type []]"
    by (simp add: parse_non_object)
  from accepted required optional sound once other show ?thesis
    by (intro conjI)
qed

theorem validator_accepts_and_reports_witness:
  "CritiqueRequestSchema_parse (JObject members_valid) = Inr request_valid
   \<and> is_nonempty_string (get_property members_valid (lit ''prd''))
   \<and> \<not> is_nonempty_string (get_property members_missing_prd_empty_code (lit ''prd''))
   \<and> \<not> is_nonempty_string
        (get_property members_missing_prd_empty_code (lit ''buggy_solution_code''))
   \<and> CritiqueRequestSchema_parse (JObject members_missing_prd_empty_code)
       = Inl [Issue invalid_type [lit ''prd''], Issue too_small [lit ''buggy_solution_code'']]
   \<and> Issue too_small [lit ''buggy_solution_code'']
       \<in> set [Issue invalid_type [lit ''prd''], Issue too_small [lit ''buggy_solution_code'']]
   \<and> \<not> absent_or_string (get_property members_missing_prd_null_label (lit ''label''))
   \<and> CritiqueRequestSchema_parse (JObject members_missing_prd_null_label)
       = Inl [Issue invalid_type [lit ''prd''], Issue invalid_type [lit ''label'']]
   \<and> Issue invalid_type [lit ''label'']
       \<in> set [Issue invalid_type [lit ''prd''], Issue invalid_type [lit ''label'']]
   \<and> distinct (map path [Issue invalid_type [lit ''prd''], Issue invalid_type [lit ''label'']])
   \<and> \<not> is_object (JArray [])
   \<and> CritiqueRequestSchema_parse (JArray []) = Inl [Issue invalid_type []]"
proof -
  have eval: "CritiqueRequestSchema_parse (JObject members_missing_prd_empty_code)
       = Inl [Issue invalid_type [lit ''prd''], Issue too_small [lit ''buggy_solution_code'']]"
    by (simp add: CritiqueRequestSchema_parse_def schema_issues_def
      get_property_def members_missing_prd_empty_code_def string_min1_def
      string_optional_def any_optional_def lit_def)
  have eval': "CritiqueRequestSchema_parse (JObject members_missing_prd_null_label)
       = Inl [Issue invalid_type [lit ''prd''], Issue invalid_type [lit ''label'']]"
    by (simp add: CritiqueRequestSchema_parse_def schema_issues_def
      get_property_def members_missing_prd_null_label_def string_min1_def
      string_optional_def any_optional_def lit_def)
  have props: "is_nonempty_string (get_property members_valid (lit ''prd''))"
    "\<not> is_nonempty_string (get_property members_missing_prd_empty_code (lit ''prd''))"
    "\<not> is_nonempty_string
        (get_property members_missing_prd_empty_code (lit ''buggy_solution_code''))"
    "get_property members_missing_prd_empty_code (lit ''buggy_solution_code'') = JString []"
    "get_property members_missing_prd_empty_code (lit ''prd'') = JUndefined"
    by (simp_all add: get_property_def members_valid_def members_missing_prd_empty_code_def
        is_nonempty_string_def lit_def)
  have props': "get_property members_missing_prd_null_label (lit ''prd'') = JUndefined"
    "get_property members_missing_prd_null_label (lit ''label'') = JNull"
    "\<not> absent_or_string (get_property members_missing_prd_null_label (lit ''label''))"
    "\<not> is_nonempty_string (get_property members_missing_prd_null_label (lit ''prd''))"
    by (simp_all add: get_property_def members_missing_prd_null_label_def
        is_nonempty_string_def absent_or_string_def lit_def)
  have once: "distinct (map path
      [Issue invalid_type [lit ''prd''], Issue invalid_type [lit ''label'']])"
    using validator_accepts_and_reports [where ms = members_missing_prd_null_label
        and k = "lit ''prd''" and j = "lit ''label''" and v = "JArray []"
        and reported = "[Issue invalid_type [lit ''prd''], Issue invalid_type [lit ''label'']]"
        and i = "Issue invalid_type [lit ''label'']"]
      eval'
    by blast
  have array: "\<not> is_object (JArray [])"
    by (simp add: is_object_def)
  have rejected: "CritiqueRequestSchema_parse (JArray []) = Inl [Issue invalid_type []]"
    using validator_accepts_and_reports [where ms = members_valid
        and k = "lit ''prd''" and j = "lit ''label''" and v = "JArray []"
        and reported = "[]" and i = "Issue invalid_type []"]
      array
    by blast
  have required: "\<exists>issues. CritiqueRequestSchema_parse (JObject members_missing_prd_empty_code)
        = Inl issues \<and> Issue too_small [lit ''buggy_solution_code''] \<in> set issues"
    using validator_accepts_and_reports [where ms = members_missing_prd_empty_code
        and k = "lit ''buggy_solution_code''" and j = "lit ''label''" and v = "JArray []"
        and reported = "[]" and i = "Issue invalid_type []"]
      props(3,4)
    by simp
  have optional: "\<exists>issues. CritiqueRequestSchema_parse (JObject members_missing_prd_null_label)
        = Inl issues \<and> Issue invalid_type [lit ''label''] \<in> set issues"
    using validator_accepts_and_reports [where ms = members_missing_prd_null_label
        and k = "lit ''prd''" and j = "lit ''label''" and v = "JArray []"
        and reported = "[]" and i = "Issue invalid_type []"]
      props'(3)
    by simp
  from required have small: "Issue too_small [lit ''buggy_solution_code'']
       \<in> set [Issue invalid_type [lit ''prd''], Issue too_small [lit ''buggy_solution_code'']]"
    by (simp only: eval) simp
  from optional have listed: "Issue invalid_type [lit ''label'']
       \<in> set [Issue invalid_type [lit ''prd''], Issue invalid_type [lit ''label'']]"
    by (simp only: eval') simp
  from parse_members_valid props(1,2,3) eval small props'(3) eval' listed once array rejected
  show ?thesis by (intro conjI)
qed

section \<open>Properties beyond the documented fields\<close>

lemma get_property_insert_other:
  "key \<noteq> k \<Longrightarrow> get_property (ms1 @ (k, v) # ms2) key = get_property (ms1 @ ms2) key"
  by (simp add: get_property_def map_add_def split: option.splits)

lemma get_property_insert_same:
  "get_property (ms1 @ (k, v) # ms2) k = (case map_of (rev ms2) k of None \<Rightarrow> v | Some w \<Rightarrow> w)"
  by (simp add: get_property_def map_add_def split: option.splits)

lemma get_property_append:
  "get_property (ms1 @ ms2) k =
     (case map_of (rev ms2) k of None \<Rightarrow> get_property ms1 k | Some w \<Rightarrow> w)"
  by (simp add: get_property_def map_add_def split: option.splits)

lemma absent_or_string_insert:
  "absent_or_string (get_property (ms1 @ ms2) k) \<Longrightarrow>
   absent_or_string (get_property (ms1 @ (k, JString t) # ms2) k)"
  by (auto simp add: get_property_insert_same get_property_append absent_or_string_def
      split: option.splits)

lemma assembled_prompt_fields:
  "prd a = prd b \<Longrightarrow> buggy_solution_code a = buggy_solution_code b \<Longrightarrow>
   failure_info a = failure_info b \<Longrightarrow> label a = label b \<Longrightarrow>
   assembled_prompt s a = assembled_prompt s b"
  by (simp add: assembled_prompt_def)

lemma the_call_fields:
  "prd a = prd b \<Longrightarrow> buggy_solution_code a = buggy_solution_code b \<Longrightarrow>
   failure_info a = failure_info b \<Longrightarrow> label a = label b \<Longrightarrow>
   make_call s tok mdl a = make_call s tok mdl b"
  by (simp add: make_call_def buildPrompt_def assembled_prompt_fields [of a b])

lemma schema_insert:
  assumes ok: "schema_issues (ms1 @ ms2) = []"
    and k: "k \<notin> {lit ''id'', lit ''prd'', lit ''buggy_solution_code'', lit ''failure_info'',
                 lit ''label'', lit ''meta''}"
    and q: "k = lit ''qwq_critique'' \<longrightarrow> (\<exists>t. v = JString t)"
  shows "schema_issues (ms1 @ (k, v) # ms2) = []"
    and "id_field (schema_output (ms1 @ (k, v) # ms2)) = id_field (schema_output (ms1 @ ms2))"
    and "prd (schema_output (ms1 @ (k, v) # ms2)) = prd (schema_output (ms1 @ ms2))"
    and "buggy_solution_code (schema_output (ms1 @ (k, v) # ms2))
           = buggy_solution_code (schema_output (ms1 @ ms2))"
    and "failure_info (schema_output (ms1 @ (k, v) # ms2))
           = failure_info (schema_output (ms1 @ ms2))"
    and "label (schema_output (ms1 @ (k, v) # ms2)) = label (schema_output (ms1 @ ms2))"
proof -
  from k have other:
    "get_property (ms1 @ (k, v) # ms2) (lit ''id'') = get_property (ms1 @ ms2) (lit ''id'')"
    "get_property (ms1 @ (k, v) # ms2) (lit ''prd'') = get_property (ms1 @ ms2) (lit ''prd'')"
    "get_property (ms1 @ (k, v) # ms2) (lit ''buggy_solution_code'')
       = get_property (ms1 @ ms2) (lit ''buggy_solution_code'')"
    "get_property (ms1 @ (k, v) # ms2) (lit ''failure_info'')
       = get_property (ms1 @ ms2) (lit ''failure_info'')"
    "get_property (ms1 @ (k, v) # ms2) (lit ''label'') = get_property (ms1 @ ms2) (lit ''label'')"
    by (auto intro!: get_property_insert_other)
  have qwq: "absent_or_string (get_property (ms1 @ (k, v) # ms2) (lit ''qwq_critique''))"
  proof (cases "k = lit ''qwq_critique''")
    case True
    with q obtain t where "v = JString t" by auto
    with True ok show ?thesis
      by (simp add: schema_issues_empty_iff absent_or_string_insert)
  next
    case False
    then have "get_property (ms1 @ (k, v) # ms2) (lit ''qwq_critique'')
        = get_property (ms1 @ ms2) (lit ''qwq_critique'')"
      by (auto intro!: get_property_insert_other)
    with ok show ?thesis
      by (simp add: schema_issues_empty_iff)
  qed
  from ok qwq show "schema_issues (ms1 @ (k, v) # ms2) = []"
    by (simp add: schema_issues_empty_iff other)
  show "id_field (schema_output (ms1 @ (k, v) # ms2)) = id_field (schema_output (ms1 @ ms2))"
    "prd (schema_output (ms1 @ (k, v) # ms2)) = prd (schema_output (ms1 @ ms2))"
    "buggy_solution_code (schema_output (ms1 @ (k, v) # ms2))
           = buggy_solution_code (schema_output (ms1 @ ms2))"
    "failure_info (schema_output (ms1 @ (k, v) # ms2))
           = failure_info (schema_output (ms1 @ ms2))"
    "label (schema_output (ms1 @ (k, v) # ms2)) = label (schema_output (ms1 @ ms2))"
    by (simp_all add: schema_output_def other)
qed

text \<open>
  The schema names \<open>qwq_critique\<close> as an optional string, so this key is not free: the
  valid object below is rejected once the property \<open>qwq_critique: true\<close> is added to it.
\<close>

lemma qwq_critique_must_be_string:
  "CritiqueRequestSchema_parse (JObject members_valid) = Inr request_valid
   \<and> CritiqueRequestSchema_parse
        (JObject (members_valid @ [(lit ''qwq_critique'', JBool True)]))
       = Inl [Issue invalid_type [lit ''qwq_critique'']]"
  by (simp add: parse_members_valid)
     (simp add: CritiqueRequestSchema_parse_def schema_issues_def
      get_property_def members_valid_def string_min1_def
      string_optional_def any_optional_def lit_def)

text \<open>
  Claim C10.  Take a JSON object that the validator accepts and add a property whose key
  is none of the documented fields \<open>id\<close>, \<open>prd\<close>, \<open>buggy_solution_code\<close>,
  \<open>failure_info\<close>, \<open>label\<close>, \<open>meta\<close>, anywhere among its members; the key may be that of
  the undocumented optional string field \<open>qwq_critique\<close>, with a string as its value.
  Then the validator accepts the extended object as well, the prompt built from it is
  the same, and the handler answers the extended request exactly as the original one,
  with the same effects.
\<close>

theorem extra_properties_ignored:
  assumes "CritiqueRequestSchema_parse (JObject (ms1 @ ms2)) = Inr r"
    and "k \<notin> {lit ''id'', lit ''prd'', lit ''buggy_solution_code'', lit ''failure_info'',
                 lit ''label'', lit ''meta''}"
    and "k = lit ''qwq_critique'' \<longrightarrow> (\<exists>t. v = JString t)"
  shows "(\<exists>r'. CritiqueRequestSchema_parse (JObject (ms1 @ (k, v) # ms2)) = Inr r'
            \<and> buildPrompt stringify r' = buildPrompt stringify r)
     \<and> POST stringify e rid
          \<lparr> content_type = ct, json_body = JsonValue (JObject (ms1 @ (k, v) # ms2)) \<rparr> env
       = POST stringify e rid
          \<lparr> content_type = ct, json_body = JsonValue (JObject (ms1 @ ms2)) \<rparr> env"
proof -
  from assms(1) have ok: "schema_issues (ms1 @ ms2) = []" and r: "r = schema_output (ms1 @ ms2)"
    by (simp_all add: parse_object split: if_splits)
  note ins = schema_insert [OF ok assms(2) assms(3)]
  have p': "CritiqueRequestSchema_parse (JObject (ms1 @ (k, v) # ms2))
      = Inr (schema_output (ms1 @ (k, v) # ms2))"
    by (simp add: parse_object ins(1))
  have p: "CritiqueRequestSchema_parse (JObject (ms1 @ ms2)) = Inr (schema_output (ms1 @ ms2))"
    by (simp add: parse_object ok)
  have call: "make_call stringify tok mdl (schema_output (ms1 @ (k, v) # ms2))
      = make_call stringify tok mdl (schema_output (ms1 @ ms2))" for tok mdl
    by (rule the_call_fields) (simp_all add: ins)
  have prompt: "buildPrompt stringify (schema_output (ms1 @ (k, v) # ms2))
      = buildPrompt stringify r"
    unfolding buildPrompt_def r
    by (simp add: assembled_prompt_fields [of "schema_output (ms1 @ (k, v) # ms2)"
          "schema_output (ms1 @ ms2)"] ins)
  have post: "POST stringify e rid
          \<lparr> content_type = ct, json_body = JsonValue (JObject (ms1 @ (k, v) # ms2)) \<rparr> env
       = POST stringify e rid
          \<lparr> content_type = ct, json_body = JsonValue (JObject (ms1 @ ms2)) \<rparr> env"
    by (simp add: POST_def POST_try_def p p' call ins(2) Let_def
        split: option.splits completion_outcome.splits)
  from p' prompt post show ?thesis by simp
qed

theorem extra_properties_ignored_witness:
  "CritiqueRequestSchema_parse (JObject members_valid) = Inr request_valid
   \<and> CritiqueRequestSchema_parse (JObject (members_valid @ [(lit ''extra'', JArray [JNull])]))
       = Inr request_valid
   \<and> POST stringify_double endpoint_resolving uuid0
        (json_request (JObject (members_valid @ [(lit ''extra'', JArray [JNull])])))
        env_configured
      = POST stringify_double endpoint_resolving uuid0
          (json_request (JObject members_valid)) env_configured
   \<and> (\<exists>r'. CritiqueRequestSchema_parse
          (JObject (members_valid @ [(lit ''qwq_critique'', JString (lit ''hint''))])) = Inr r'
        \<and> buildPrompt stringify_double r' = buildPrompt stringify_double request_valid)"
proof -
  have base: "CritiqueRequestSchema_parse (JObject (members_valid @ [])) = Inr request_valid"
    by (simp add: parse_members_valid)
  have k: "lit ''extra'' \<notin> {lit ''id'', lit ''prd'', lit ''buggy_solution_code'',
        lit ''failure_info'', lit ''label'', lit ''meta''}"
    by (simp add: lit_def)
  have kq: "lit ''extra'' = lit ''qwq_critique'' \<longrightarrow> (\<exists>t. JArray [JNull] = JString t)"
    by (simp add: lit_def)
  have q: "lit ''qwq_critique'' \<notin> {lit ''id'', lit ''prd'', lit ''buggy_solution_code'',
        lit ''failure_info'', lit ''label'', lit ''meta''}"
    by (simp add: lit_def)
  have qq: "lit ''qwq_critique'' = lit ''qwq_critique'' \<longrightarrow>
      (\<exists>t. JString (lit ''hint'') = JString t)"
    by simp
  have ev: "CritiqueRequestSchema_parse
      (JObject (members_valid @ [(lit ''extra'', JArray [JNull])])) = Inr request_valid"
    by (simp add: CritiqueRequestSchema_parse_def schema_issues_def schema_output_def
      get_property_def members_valid_def request_valid_def string_min1_def
      string_optional_def any_optional_def string_value_def optional_string_value_def lit_def)
  show ?thesis
    using extra_properties_ignored [OF base k kq, where stringify = stringify_double
        and e = endpoint_resolving and rid = uuid0 and ct = "Some (lit ''application/json'')"
        and env = env_configured]
      extra_properties_ignored [OF base q qq, where stringify = stringify_double
        and e = endpoint_resolving and rid = uuid0 and ct = "Some (lit ''application/json'')"
        and env = env_configured]
    by (simp add: parse_members_valid ev json_request_def)
qed

end
